theory Spec2Isabelle
  imports
    Main
    "HOL-Library.Word"
    "HOL-Library.Char_ord"
    "HOL-Library.List_Lexorder"
    "HOL-Library.Multiset"
begin

section \<open>The gname provider for libdns: a shallow embedding\<close>

text \<open>
  The repository holds two generations of the same Go package. The current one
  (written against the \<^verbatim>\<open>libdns.RR\<close> interface of libdns 1.x) is the provider with the
  \<^verbatim>\<open>HTTPClient\<close> field and \<^verbatim>\<open>getHTTPClient\<close>, the models file whose
  \<^verbatim>\<open>DomainResolutionRecord\<close> has a \<^verbatim>\<open>TTL\<close> field and an \<^verbatim>\<open>RR()\<close> method, and the client
  with \<^verbatim>\<open>MakeApiRequestWithClient\<close>. The older one has \<^verbatim>\<open>libdns.Record\<close> as a struct with
  an \<^verbatim>\<open>ID\<close> field. The two cannot be compiled together (every symbol would be declared
  twice); the README and the tests use the current API, so it is the current generation
  that is embedded here.

  Go strings are byte sequences and so are HOL strings. Go's \<^verbatim>\<open>int\<close> is taken to be 64 bits
  wide (amd64, arm64), \<^verbatim>\<open>time.Duration\<close> is an \<^verbatim>\<open>int64\<close> count of nanoseconds and is a
  \<^typ>\<open>64 word\<close> read with \<^const>\<open>sint\<close>.  An \<^verbatim>\<open>error\<close> is its message.
\<close>

subsection \<open>Standard-library functions used by the code\<close>

text \<open>\<^verbatim>\<open>strings.HasSuffix\<close> and \<^verbatim>\<open>strings.TrimSuffix\<close>: at most one copy of the suffix is removed.\<close>

definition HasSuffix :: "string \<Rightarrow> string \<Rightarrow> bool" where
  "HasSuffix s suffix =
     (length suffix \<le> length s \<and> drop (length s - length suffix) s = suffix)"

definition TrimSuffix :: "string \<Rightarrow> string \<Rightarrow> string" where
  "TrimSuffix s suffix =
     (if HasSuffix s suffix then take (length s - length suffix) s else s)"

text \<open>\<^verbatim>\<open>strings.Join\<close>.\<close>

fun Join :: "string list \<Rightarrow> string \<Rightarrow> string" where
  "Join [] sep = []"
| "Join [x] sep = x"
| "Join (x # y # ys) sep = x @ sep @ Join (y # ys) sep"

text \<open>The verb \<^verbatim>\<open>%d\<close> of \<^verbatim>\<open>fmt\<close> on an integer: decimal digits, a minus sign when negative.\<close>

fun nat_digits :: "nat \<Rightarrow> string" where
  "nat_digits n =
     (if n < 10 then [''0123456789'' ! n]
      else nat_digits (n div 10) @ [''0123456789'' ! (n mod 10)])"

declare nat_digits.simps [simp del]

definition itoa :: "int \<Rightarrow> string" where
  "itoa i = (if i < 0 then CHR ''-'' # nat_digits (nat (- i)) else nat_digits (nat i))"

text \<open>
  \<^verbatim>\<open>strconv.Atoi\<close> on a 64-bit platform: an optional sign, then one or more decimal digits;
  a value outside the \<^verbatim>\<open>int64\<close> range is an error. \<open>None\<close> stands for a non-nil error
  (the code never looks at the value that comes with one).
\<close>

definition is_digit :: "char \<Rightarrow> bool" where
  "is_digit c = (CHR ''0'' \<le> c \<and> c \<le> CHR ''9'')"

definition digits_value :: "string \<Rightarrow> nat" where
  "digits_value ds = foldl (\<lambda>n c. n * 10 + (of_char c - 48)) 0 ds"

definition Atoi :: "string \<Rightarrow> int option" where
  "Atoi s =
     (let neg = (s \<noteq> [] \<and> hd s = CHR ''-'');
          ds = (if s \<noteq> [] \<and> (hd s = CHR ''-'' \<or> hd s = CHR ''+'') then tl s else s)
      in if ds = [] \<or> \<not> list_all is_digit ds then None
         else let n = int (digits_value ds)
              in if neg then (if 2 ^ 63 < n then None else Some (- n))
                 else (if 2 ^ 63 \<le> n then None else Some n))"

subsection \<open>Data model\<close>

text \<open>\<^verbatim>\<open>libdns.RR\<close>, the generic record.\<close>

record RR =
  Name :: string
  TTL :: "64 word"
  Type :: string
  Data :: string

text \<open>
  The vendor's record. Its \<^verbatim>\<open>TTL\<close> field is a string; it is called \<open>TTLs\<close> here because
  \<open>TTL\<close> is the field of \<^typ>\<open>RR\<close>.
\<close>

record DomainResolutionRecord =
  ID :: string
  Ym :: string
  Zjt :: string
  Lx :: string
  Jxz :: string
  Mx :: string
  Xlid :: int
  Zt :: string
  TTLs :: string

definition Second :: "64 word" where
  "Second = 1000000000"

definition toLibdnsRecord :: "DomainResolutionRecord \<Rightarrow> string \<Rightarrow> RR" where
  "toLibdnsRecord d zone =
     (let ttl = (if TTLs d \<noteq> ''''
                 then (case Atoi (TTLs d) of
                         Some parsedTTL \<Rightarrow>
                           if 0 < parsedTTL then word_of_int parsedTTL * Second
                           else Second * 600
                       | None \<Rightarrow> Second * 600)
                 else Second * 600)
      in \<lparr>Name = Zjt d, TTL = ttl, Type = Lx d, Data = Jxz d\<rparr>)"

text \<open>
  \<^verbatim>\<open>libdns.Record\<close> is an interface with the one method \<^verbatim>\<open>RR()\<close>. Two types of the program
  implement it: \<^verbatim>\<open>libdns.RR\<close> (its \<^verbatim>\<open>RR()\<close> is the identity) and the vendor's
  \<^verbatim>\<open>DomainResolutionRecord\<close>. The type assertion \<^verbatim>\<open>rec.(DomainResolutionRecord)\<close> succeeds
  on the second constructor only. The code reads a record through \<^verbatim>\<open>RR()\<close> and that
  assertion alone, so a value of any other implementation that a caller passes
  (\<^verbatim>\<open>libdns.Address\<close>, \<^verbatim>\<open>libdns.TXT\<close>, ...) is the \<open>LibdnsRR\<close> of what its \<^verbatim>\<open>RR()\<close> returns.
\<close>

datatype Record = LibdnsRR RR | Vendor DomainResolutionRecord

fun RR_of :: "Record \<Rightarrow> RR" where
  "RR_of (LibdnsRR rr) = rr"
| "RR_of (Vendor d) = toLibdnsRecord d ''''"

subsection \<open>Zones\<close>

definition libdnsZoneToDnslaDomain :: "string \<Rightarrow> string" where
  "libdnsZoneToDnslaDomain zone = TrimSuffix zone ''.''"

subsection \<open>The signer and the transport\<close>

text \<open>
  \<^verbatim>\<open>fmt.Sprintf("%x", token)\<close> on a byte array prints two lower-case hexadecimal digits per
  byte. \<^verbatim>\<open>strings.ToUpper\<close> is modelled on the ASCII letters, which is all a hexadecimal
  string holds.
\<close>

definition hex_byte :: "8 word \<Rightarrow> string" where
  "hex_byte b = [''0123456789abcdef'' ! (unat b div 16), ''0123456789abcdef'' ! (unat b mod 16)]"

definition hex :: "8 word list \<Rightarrow> string" where
  "hex bs = concat (map hex_byte bs)"

definition upper_char :: "char \<Rightarrow> char" where
  "upper_char c =
     (if CHR ''a'' \<le> c \<and> c \<le> CHR ''z''
      then ''ABCDEFGHIJKLMNOPQRSTUVWXYZ'' ! (of_char c - 97)
      else c)"

definition ToUpper :: "string \<Rightarrow> string" where
  "ToUpper s = map upper_char s"

text \<open>The response structs. All of them start with the envelope's \<^verbatim>\<open>Code\<close> and \<^verbatim>\<open>Msg\<close>.\<close>

record CommonResponse =
  Code :: int
  Msg :: string

record ResolutionList = CommonResponse +
  List_Data :: "DomainResolutionRecord list"
  Count :: int
  Page :: int
  PageSize :: int

record AddDomainRecord = CommonResponse +
  Add_Data :: int

record UpdateDomainRecord = CommonResponse +
  Update_Data :: string

type_synonym DeleteDomainRecord = CommonResponse

text \<open>
  An HTTP request as the transport builds it, and what \<^verbatim>\<open>client.Do\<close> hands back: the
  status, the bytes that \<^verbatim>\<open>io.ReadAll\<close> reads from the body, and the error of that read,
  if any.
\<close>

record http_request =
  Method :: string
  URL :: string
  ContentType :: string
  ReqBody :: string

record http_response =
  StatusCode :: int
  Body :: string
  BodyErr :: "string option"

text \<open>The options handed to \<^verbatim>\<open>gojoin.Join\<close>, with the two constants the code names.\<close>

datatype Order = ASCII
datatype URLCoding = Encoding

record Options =
  Sep :: string
  KVSep :: string
  Order :: Order
  URLCoding :: URLCoding

text \<open>
  Everything outside the package is a parameter: the clock, the time-zone database, the
  pieces of the standard library and of go-join that the code calls, the JSON decoder at
  each of the response types, the formatting of a floating-point number, and the vendor's
  server behind \<^verbatim>\<open>client.Do\<close>, a state machine over a world \<open>'w\<close>. An error is \<open>Inl\<close> of its
  message (\<open>Some\<close> of it where there is no value to return).
\<close>

record 'w env =
  LoadLocation :: "'w \<Rightarrow> string \<Rightarrow> string option"
  Now_Unix :: "'w \<Rightarrow> int"
  parse_query :: "string \<Rightarrow> string + (string \<times> string) list"
  QueryEscape :: "string \<Rightarrow> string"
  md5_Sum :: "string \<Rightarrow> 8 word list"
  url_Parse :: "string \<Rightarrow> string + string"
  NewRequest_err :: "string \<Rightarrow> string \<Rightarrow> string option"
  Do :: "http_request \<Rightarrow> 'w \<Rightarrow> (string + http_response) \<times> 'w"
  Unmarshal_CommonResponse :: "string \<Rightarrow> CommonResponse \<Rightarrow> string + CommonResponse"
  Unmarshal_ResolutionList :: "string \<Rightarrow> ResolutionList \<Rightarrow> string + ResolutionList"
  Unmarshal_AddDomainRecord :: "string \<Rightarrow> AddDomainRecord \<Rightarrow> string + AddDomainRecord"
  Unmarshal_UpdateDomainRecord ::
    "string \<Rightarrow> UpdateDomainRecord \<Rightarrow> string + UpdateDomainRecord"
  Unmarshal_DeleteDomainRecord ::
    "string \<Rightarrow> DeleteDomainRecord \<Rightarrow> string + DeleteDomainRecord"
  format_seconds :: "64 word \<Rightarrow> string"

text \<open>
  Modelled from the spec: \<^verbatim>\<open>gojoin.Join\<close> belongs to the package
  \<^verbatim>\<open>github.com/yuchenfw/go-join\<close>, which is not part of the repository. The spec gives its
  contract under the options the code passes: the parameters sorted by key in ASCII byte
  order, joined as key, \<^verbatim>\<open>KVSep\<close>, URL-encoded value, with \<^verbatim>\<open>Sep\<close> between the pairs. How
  the parameters are read off the URL and how a value is URL-encoded stay parameters
  (\<^const>\<open>parse_query\<close>, \<^const>\<open>QueryEscape\<close>). The order on strings is the lexicographic
  order of the bytes.
\<close>

definition gojoin_Join :: "'w env \<Rightarrow> string \<Rightarrow> Options \<Rightarrow> string + string" where
  "gojoin_Join env src opts =
     (case parse_query env src of
        Inl err \<Rightarrow> Inl err
      | Inr ps \<Rightarrow>
          Inr (Join (map (\<lambda>(k, v). k @ KVSep opts @ QueryEscape env v) (sort_key fst ps))
                 (Sep opts)))"

text \<open>
  The state the package runs in: the world, and two histories kept for the statements
  below, the calls of \<^verbatim>\<open>MakeApiRequestWithClient\<close> (method, endpoint, parameter string) and
  the requests handed to \<^verbatim>\<open>client.Do\<close>.
\<close>

record api_call =
  call_method :: string
  call_endpoint :: string
  call_params :: string

record 'w state =
  world :: 'w
  invoked :: "api_call list"
  sent :: "http_request list"

definition ApiBase :: string where
  "ApiBase = ''https://api.gname.com''"

text \<open>The local variables \<^verbatim>\<open>gnToken\<close> and \<^verbatim>\<open>bodyStr\<close> of \<^verbatim>\<open>MakeApiRequestWithClient\<close>.\<close>

definition gnToken :: "'w env \<Rightarrow> string \<Rightarrow> string \<Rightarrow> string" where
  "gnToken env sortedParams appKey = ToUpper (hex (md5_Sum env (sortedParams @ appKey)))"

definition bodyStr :: "'w env \<Rightarrow> string \<Rightarrow> string \<Rightarrow> string" where
  "bodyStr env sortedParams appKey =
     sortedParams @ ''&gntoken='' @ gnToken env sortedParams appKey"

text \<open>
  \<^verbatim>\<open>MakeApiRequestWithClient\<close> up to \<^verbatim>\<open>client.Do\<close>: the request it builds, or the error it
  returns before any request is made. \<^verbatim>\<open>Unix()\<close> does not depend on the location the time
  is shown in, so the location only matters through the failure of loading it.
\<close>

definition build_request ::
  "'w env \<Rightarrow> string \<Rightarrow> string \<Rightarrow> string \<Rightarrow> string \<Rightarrow> 'w \<Rightarrow> string + http_request" where
  "build_request env method endpoint params appKey w =
     (case LoadLocation env w ''Asia/Shanghai'' of
        Some err \<Rightarrow> Inl (''failed to load timezone: '' @ err)
      | None \<Rightarrow>
          let newEndpoint = endpoint @ ''?'' @ params @ ''&gntime='' @ itoa (Now_Unix env w)
          in case gojoin_Join env (ApiBase @ newEndpoint)
                    \<lparr>Sep = ''&'', KVSep = ''='', Order = ASCII, URLCoding = Encoding\<rparr> of
               Inl err \<Rightarrow> Inl (''failed to join parameters: '' @ err)
             | Inr sortedParams \<Rightarrow>
                 (case url_Parse env (ApiBase @ endpoint) of
                    Inl err \<Rightarrow> Inl (''failed to parse URL: '' @ err)
                  | Inr u \<Rightarrow>
                      (case NewRequest_err env method u of
                         Some err \<Rightarrow> Inl (''failed to create request: '' @ err)
                       | None \<Rightarrow>
                           Inr \<lparr>Method = method, URL = u,
                                ContentType = ''application/x-www-form-urlencoded'',
                                ReqBody = bodyStr env sortedParams appKey\<rparr>)))"

text \<open>
  \<^verbatim>\<open>MakeApiRequestWithClient\<close> after \<^verbatim>\<open>client.Do\<close> has returned a response. \<open>decode\<close> is
  \<^verbatim>\<open>json.Unmarshal\<close> at the type parameter \<^verbatim>\<open>T\<close>. On an error the Go function returns
  \<^verbatim>\<open>responseType\<close> with it; no caller reads that value, and the model returns the error alone.
\<close>

definition read_response ::
  "'w env \<Rightarrow> (string \<Rightarrow> 'T \<Rightarrow> string + 'T) \<Rightarrow> 'T \<Rightarrow> http_response \<Rightarrow> string + 'T" where
  "read_response env decode responseType resp =
     (if StatusCode resp \<noteq> 200
      then Inl (''API request failed with status '' @ itoa (StatusCode resp) @ '': '' @ Body resp)
      else case BodyErr resp of
             Some err \<Rightarrow> Inl (''failed to read response body: '' @ err)
           | None \<Rightarrow>
               (case Unmarshal_CommonResponse env (Body resp) \<lparr>Code = 0, Msg = ''''\<rparr> of
                  Inl err \<Rightarrow> Inl (''failed to parse common response: '' @ err)
                | Inr commonResponse \<Rightarrow>
                    if Code commonResponse \<noteq> 1
                    then Inl (''API error: '' @ Msg commonResponse @ '' (code: ''
                              @ itoa (Code commonResponse) @ '')'')
                    else (case decode (Body resp) responseType of
                            Inl err \<Rightarrow> Inl (''failed to parse response: '' @ err)
                          | Inr response \<Rightarrow> Inr response)))"

definition MakeApiRequestWithClient ::
  "'w env \<Rightarrow> (string \<Rightarrow> 'T \<Rightarrow> string + 'T) \<Rightarrow> string \<Rightarrow> string \<Rightarrow> string \<Rightarrow> string \<Rightarrow> 'T
   \<Rightarrow> 'w state \<Rightarrow> (string + 'T) \<times> 'w state" where
  "MakeApiRequestWithClient env decode method endpoint params appKey responseType s =
     (let s1 = s\<lparr>invoked := invoked s
                  @ [\<lparr>call_method = method, call_endpoint = endpoint, call_params = params\<rparr>]\<rparr>
      in case build_request env method endpoint params appKey (world s1) of
           Inl err \<Rightarrow> (Inl err, s1)
         | Inr req \<Rightarrow>
             (case Do env req (world s1) of
                (r, w') \<Rightarrow>
                  let s2 = s1\<lparr>world := w', sent := sent s1 @ [req]\<rparr>
                  in case r of
                       Inl err \<Rightarrow> (Inl (''failed to execute request: '' @ err), s2)
                     | Inr resp \<Rightarrow> (read_response env decode responseType resp, s2)))"

subsection \<open>The provider\<close>

text \<open>
  The provider's credentials. Its HTTP client (\<^verbatim>\<open>getHTTPClient\<close> builds one with a timeout
  of 30 seconds when the field is nil) is what \<^const>\<open>Do\<close> stands for.
\<close>

record Provider =
  APPID :: string
  APPKey :: string

text \<open>
  \<^verbatim>\<open>for _, record := range records\<close> with an accumulated result list: the body either
  returns from the function with an error (the list stays as it was when the iteration
  began) or goes on to the next record with a new list.
\<close>

fun for_range ::
  "('r \<Rightarrow> 'a \<Rightarrow> 's \<Rightarrow> (string + 'a) \<times> 's) \<Rightarrow> 'r list \<Rightarrow> 'a \<Rightarrow> 's
   \<Rightarrow> ('a \<times> string option) \<times> 's" where
  "for_range body [] acc s = ((acc, None), s)"
| "for_range body (r # rs) acc s =
     (case body r acc s of
        (Inl err, s') \<Rightarrow> ((acc, Some err), s')
      | (Inr acc', s') \<Rightarrow> for_range body rs acc' s')"

definition GetRecords ::
  "'w env \<Rightarrow> Provider \<Rightarrow> string \<Rightarrow> 'w state \<Rightarrow> (string + Record list) \<times> 'w state" where
  "GetRecords env p zone s =
     (let trimmedZone = libdnsZoneToDnslaDomain zone;
          params = ''appid='' @ APPID p @ ''&ym='' @ trimmedZone
      in case MakeApiRequestWithClient env (Unmarshal_ResolutionList env) ''POST''
                ''/api/resolution/list'' params (APPKey p)
                \<lparr>Code = 0, Msg = '''', List_Data = [], Count = 0, Page = 0, PageSize = 0\<rparr> s of
           (Inl err, s') \<Rightarrow>
             (Inl (''failed to get records for zone '' @ zone @ '': '' @ err), s')
         | (Inr response, s') \<Rightarrow>
             (Inr (map (\<lambda>rec. LibdnsRR (toLibdnsRecord rec trimmedZone)) (List_Data response)),
              s'))"

definition AppendRecords_body ::
  "'w env \<Rightarrow> Provider \<Rightarrow> string \<Rightarrow> string \<Rightarrow> Record \<Rightarrow> Record list \<Rightarrow> 'w state
   \<Rightarrow> (string + Record list) \<times> 'w state" where
  "AppendRecords_body env p zone trimmedZone r successfullyAppendedRecords s =
     (let rr = RR_of r;
          params = ''appid='' @ APPID p @ ''&ym='' @ trimmedZone @ ''&lx='' @ Type rr
                   @ ''&zj='' @ Name rr @ ''&jlz='' @ Data rr
                   @ ''&ttl='' @ format_seconds env (TTL rr)
      in case MakeApiRequestWithClient env (Unmarshal_AddDomainRecord env) ''POST''
                ''/api/resolution/add'' params (APPKey p)
                \<lparr>Code = 0, Msg = '''', Add_Data = 0\<rparr> s of
           (Inl err, s') \<Rightarrow>
             (Inl (''failed to append record '' @ Name rr @ ''.'' @ zone @ '': '' @ err), s')
         | (Inr response, s') \<Rightarrow>
             (let appendedRecord =
                    \<lparr>Name = Name rr, TTL = TTL rr, Type = Type rr, Data = Data rr\<rparr>
              in (Inr (successfullyAppendedRecords @ [LibdnsRR appendedRecord]), s')))"

definition AppendRecords ::
  "'w env \<Rightarrow> Provider \<Rightarrow> string \<Rightarrow> Record list \<Rightarrow> 'w state
   \<Rightarrow> (Record list \<times> string option) \<times> 'w state" where
  "AppendRecords env p zone records s =
     for_range (AppendRecords_body env p zone (libdnsZoneToDnslaDomain zone)) records [] s"

text \<open>
  The inner loop of \<^verbatim>\<open>SetRecords\<close> and of \<^verbatim>\<open>DeleteRecords\<close>: the first listed record with
  the name and type of \<open>rr\<close> decides. It returns \<^verbatim>\<open>hasRecord\<close> and \<^verbatim>\<open>recordId\<close>
  (\<^verbatim>\<open>DeleteRecords\<close> keeps the second only).
\<close>

fun find_record :: "Record list \<Rightarrow> RR \<Rightarrow> bool \<times> string" where
  "find_record [] rr = (False, '''')"
| "find_record (rec # recs) rr =
     (let recRR = RR_of rec
      in if Name recRR = Name rr \<and> Type recRR = Type rr
         then (True, case rec of Vendor dnslaRec \<Rightarrow> ID dnslaRec | LibdnsRR x \<Rightarrow> '''')
         else find_record recs rr)"

definition SetRecords_body ::
  "'w env \<Rightarrow> Provider \<Rightarrow> string \<Rightarrow> string \<Rightarrow> Record list \<Rightarrow> Record \<Rightarrow> Record list
   \<Rightarrow> 'w state \<Rightarrow> (string + Record list) \<times> 'w state" where
  "SetRecords_body env p zone trimmedZone recs r successfullyUpdatedRecords s =
     (let rr = RR_of r;
          (hasRecord, recordId) = find_record recs rr
      in if \<not> hasRecord
         then (case AppendRecords env p zone [r] s of
                 ((appendedRecords, Some err), s') \<Rightarrow>
                   (Inl (''failed to create new record: '' @ err), s')
               | ((appendedRecords, None), s') \<Rightarrow>
                   (Inr (successfullyUpdatedRecords @ appendedRecords), s'))
         else if recordId = '''' then (Inr successfullyUpdatedRecords, s)
         else let params = ''appid='' @ APPID p @ ''&ym='' @ trimmedZone @ ''&lx='' @ Type rr
                           @ ''&zj='' @ Name rr @ ''&jlz='' @ Data rr
                           @ ''&ttl='' @ format_seconds env (TTL rr) @ ''&jxid='' @ recordId
              in case MakeApiRequestWithClient env (Unmarshal_UpdateDomainRecord env) ''POST''
                        ''/api/resolution/edit'' params (APPKey p)
                        \<lparr>Code = 0, Msg = '''', Update_Data = ''''\<rparr> s of
                   (Inl err, s') \<Rightarrow>
                     (Inl (''failed to update record '' @ Name rr @ ''.'' @ zone @ '': '' @ err),
                      s')
                 | (Inr response, s') \<Rightarrow>
                     (if Code response = 1
                      then (Inr (successfullyUpdatedRecords
                                 @ [LibdnsRR \<lparr>Name = Name rr, TTL = TTL rr, Type = Type rr,
                                              Data = Data rr\<rparr>]), s')
                      else (Inr successfullyUpdatedRecords, s')))"

definition SetRecords ::
  "'w env \<Rightarrow> Provider \<Rightarrow> string \<Rightarrow> Record list \<Rightarrow> 'w state
   \<Rightarrow> (Record list \<times> string option) \<times> 'w state" where
  "SetRecords env p zone records s =
     (let trimmedZone = libdnsZoneToDnslaDomain zone
      in case GetRecords env p zone s of
           (Inl err, s') \<Rightarrow> (([], Some (''failed to get existing records: '' @ err)), s')
         | (Inr recs, s') \<Rightarrow>
             for_range (SetRecords_body env p zone trimmedZone recs) records [] s')"

definition DeleteRecords_body ::
  "'w env \<Rightarrow> Provider \<Rightarrow> string \<Rightarrow> string \<Rightarrow> Record list \<Rightarrow> Record \<Rightarrow> Record list
   \<Rightarrow> 'w state \<Rightarrow> (string + Record list) \<times> 'w state" where
  "DeleteRecords_body env p zone trimmedZone recs r successfullyDeletedRecords s =
     (let rr = RR_of r;
          recordId = snd (find_record recs rr)
      in if recordId = '''' then (Inr successfullyDeletedRecords, s)
         else let params = ''appid='' @ APPID p @ ''&ym='' @ trimmedZone @ ''&jxid='' @ recordId
              in case MakeApiRequestWithClient env (Unmarshal_DeleteDomainRecord env) ''POST''
                        ''/api/resolution/delete'' params (APPKey p)
                        \<lparr>Code = 0, Msg = ''''\<rparr> s of
                   (Inl err, s') \<Rightarrow>
                     (Inl (''failed to delete record '' @ Name rr @ ''.'' @ zone @ '': '' @ err),
                      s')
                 | (Inr response, s') \<Rightarrow>
                     (if Code response = 1
                      then (Inr (successfullyDeletedRecords @ [LibdnsRR rr]), s')
                      else (Inr successfullyDeletedRecords, s')))"

definition DeleteRecords ::
  "'w env \<Rightarrow> Provider \<Rightarrow> string \<Rightarrow> Record list \<Rightarrow> 'w state
   \<Rightarrow> (Record list \<times> string option) \<times> 'w state" where
  "DeleteRecords env p zone records s =
     (let trimmedZone = libdnsZoneToDnslaDomain zone
      in case GetRecords env p zone s of
           (Inl err, s') \<Rightarrow> (([], Some (''failed to get existing records: '' @ err)), s')
         | (Inr recs, s') \<Rightarrow>
             for_range (DeleteRecords_body env p zone trimmedZone recs) records [] s')"

subsection \<open>The four calls of the reconciler\<close>

text \<open>
  What the provider hands to \<^verbatim>\<open>MakeApiRequestWithClient\<close> for each endpoint: the method,
  the path and the parameter string that \<^verbatim>\<open>fmt.Sprintf\<close> builds.
\<close>

definition list_call :: "Provider \<Rightarrow> string \<Rightarrow> api_call" where
  "list_call p zone =
     \<lparr>call_method = ''POST'', call_endpoint = ''/api/resolution/list'',
      call_params = ''appid='' @ APPID p @ ''&ym='' @ libdnsZoneToDnslaDomain zone\<rparr>"

definition add_call :: "'w env \<Rightarrow> Provider \<Rightarrow> string \<Rightarrow> RR \<Rightarrow> api_call" where
  "add_call env p zone rr =
     \<lparr>call_method = ''POST'', call_endpoint = ''/api/resolution/add'',
      call_params = ''appid='' @ APPID p @ ''&ym='' @ libdnsZoneToDnslaDomain zone
                    @ ''&lx='' @ Type rr @ ''&zj='' @ Name rr @ ''&jlz='' @ Data rr
                    @ ''&ttl='' @ format_seconds env (TTL rr)\<rparr>"

definition edit_call :: "'w env \<Rightarrow> Provider \<Rightarrow> string \<Rightarrow> RR \<Rightarrow> string \<Rightarrow> api_call" where
  "edit_call env p zone rr recordId =
     \<lparr>call_method = ''POST'', call_endpoint = ''/api/resolution/edit'',
      call_params = ''appid='' @ APPID p @ ''&ym='' @ libdnsZoneToDnslaDomain zone
                    @ ''&lx='' @ Type rr @ ''&zj='' @ Name rr @ ''&jlz='' @ Data rr
                    @ ''&ttl='' @ format_seconds env (TTL rr) @ ''&jxid='' @ recordId\<rparr>"

definition delete_call :: "Provider \<Rightarrow> string \<Rightarrow> string \<Rightarrow> api_call" where
  "delete_call p zone recordId =
     \<lparr>call_method = ''POST'', call_endpoint = ''/api/resolution/delete'',
      call_params = ''appid='' @ APPID p @ ''&ym='' @ libdnsZoneToDnslaDomain zone
                    @ ''&jxid='' @ recordId\<rparr>"

text \<open>A listed record has the name and type of \<open>rr\<close>: the test of the inner loop.\<close>

definition same_name_type :: "RR \<Rightarrow> Record \<Rightarrow> bool" where
  "same_name_type rr rec = (Name (RR_of rec) = Name rr \<and> Type (RR_of rec) = Type rr)"

subsection \<open>A scripted vendor for the examples\<close>

text \<open>
  The examples run the provider against a vendor that answers from a script: the world is
  the list of answers still to give, and \<^verbatim>\<open>client.Do\<close> takes the next one. The decoders know
  the three response bodies of the script, the clock stands still, the time zone loads,
  a query string is split at \<^verbatim>\<open>&\<close> and \<^verbatim>\<open>=\<close>, no value needs escaping, and the digest is a
  fixed one (MD5 itself is not modelled).
\<close>

definition body_ok :: string where
  \<open>body_ok = ''{"code":1,"msg":"ok"}''\<close>

definition body_denied :: string where
  \<open>body_denied = ''{"code":0,"msg":"invalid appid"}''\<close>

definition body_list :: string where
  \<open>body_list = ''{"code":1,"msg":"ok","data":[{"id":"1","zjt":"www","lx":"A","jxz":"1.1.1.1","ttl":"600"}]}''\<close>

definition demo_listed :: DomainResolutionRecord where
  "demo_listed = \<lparr>ID = ''1'', Ym = '''', Zjt = ''www'', Lx = ''A'', Jxz = ''1.1.1.1'',
                   Mx = '''', Xlid = 0, Zt = '''', TTLs = ''600''\<rparr>"

definition demo_envelope :: "string \<Rightarrow> string + CommonResponse" where
  "demo_envelope body =
     (if body = body_ok \<or> body = body_list then Inr \<lparr>Code = 1, Msg = ''ok''\<rparr>
      else if body = body_denied then Inr \<lparr>Code = 0, Msg = ''invalid appid''\<rparr>
      else Inl ''invalid character'')"

fun Split :: "string \<Rightarrow> char \<Rightarrow> string list" where
  "Split [] sep = [[]]"
| "Split (c # cs) sep =
     (if c = sep then [] # Split cs sep
      else (case Split cs sep of x # xs \<Rightarrow> (c # x) # xs | [] \<Rightarrow> [[c]]))"

definition demo_parse_query :: "string \<Rightarrow> string + (string \<times> string) list" where
  "demo_parse_query url =
     Inr (map (\<lambda>kv. (takeWhile (\<lambda>c. c \<noteq> CHR ''='') kv,
                      drop 1 (dropWhile (\<lambda>c. c \<noteq> CHR ''='') kv)))
            (Split (drop 1 (dropWhile (\<lambda>c. c \<noteq> CHR ''?'') url)) CHR ''&''))"

type_synonym script = "(string + http_response) list"

definition demo_env :: "script env" where
  "demo_env =
     \<lparr>LoadLocation = (\<lambda>w name. None),
      Now_Unix = (\<lambda>w. 1700000000),
      parse_query = demo_parse_query,
      QueryEscape = (\<lambda>v. v),
      md5_Sum = (\<lambda>s. [0x5d, 0x41, 0x40, 0x2a, 0xbc, 0x4b, 0x2a, 0x76,
                        0xb9, 0x71, 0x9d, 0x91, 0x10, 0x17, 0xc5, 0x92]),
      url_Parse = Inr,
      NewRequest_err = (\<lambda>method u. None),
      Do = (\<lambda>req w. case w of [] \<Rightarrow> (Inl ''connection refused'', []) | r # rs \<Rightarrow> (r, rs)),
      Unmarshal_CommonResponse = (\<lambda>body v. demo_envelope body),
      Unmarshal_ResolutionList = (\<lambda>body v.
         case demo_envelope body of
           Inl err \<Rightarrow> Inl err
         | Inr c \<Rightarrow> Inr \<lparr>Code = Code c, Msg = Msg c,
                         List_Data = (if body = body_list then [demo_listed] else []),
                         Count = 0, Page = 0, PageSize = 0\<rparr>),
      Unmarshal_AddDomainRecord = (\<lambda>body v.
         case demo_envelope body of
           Inl err \<Rightarrow> Inl err
         | Inr c \<Rightarrow> Inr \<lparr>Code = Code c, Msg = Msg c, Add_Data = 0\<rparr>),
      Unmarshal_UpdateDomainRecord = (\<lambda>body v.
         case demo_envelope body of
           Inl err \<Rightarrow> Inl err
         | Inr c \<Rightarrow> Inr \<lparr>Code = Code c, Msg = Msg c, Update_Data = ''''\<rparr>),
      Unmarshal_DeleteDomainRecord = (\<lambda>body v. demo_envelope body),
      format_seconds = (\<lambda>d. itoa (sint d div 1000000000))\<rparr>"

definition demo_provider :: Provider where
  "demo_provider = \<lparr>APPID = ''id'', APPKey = ''secret''\<rparr>"

definition start :: "script \<Rightarrow> script state" where
  "start w = \<lparr>world = w, invoked = [], sent = []\<rparr>"

definition respond :: "int \<Rightarrow> string \<Rightarrow> string + http_response" where
  "respond status body = Inr \<lparr>StatusCode = status, Body = body, BodyErr = None\<rparr>"

definition demo_record :: "string \<Rightarrow> string \<Rightarrow> string \<Rightarrow> int \<Rightarrow> Record" where
  "demo_record name type data seconds =
     LibdnsRR \<lparr>Name = name, TTL = word_of_int seconds * Second, Type = type, Data = data\<rparr>"

section \<open>Properties\<close>

subsection \<open>Zone normalisation\<close>

lemma TrimSuffix_dot:
  "TrimSuffix s ''.'' = (if s \<noteq> [] \<and> last s = CHR ''.'' then butlast s else s)"
proof (cases "s = []")
  case True
  then show ?thesis by (simp add: TrimSuffix_def HasSuffix_def)
next
  case False
  then obtain ys y where s: "s = ys @ [y]"
    by (metis append_butlast_last_id)
  show ?thesis by (simp add: s TrimSuffix_def HasSuffix_def)
qed

text \<open>
  C9. A zone in canonical form, that is one that does not end with a dot, is left unchanged
  by the normalisation.
\<close>

theorem zone_normalisation_fixes_canonical:
  "(zone = [] \<or> last zone \<noteq> CHR ''.'') \<Longrightarrow> libdnsZoneToDnslaDomain zone = zone"
  by (auto simp: libdnsZoneToDnslaDomain_def TrimSuffix_dot)

theorem zone_normalisation_fixes_canonical_witness:
  "(''example.com'' = [] \<or> last ''example.com'' \<noteq> CHR ''.'')
   \<and> libdnsZoneToDnslaDomain ''example.com'' = ''example.com''"
  using zone_normalisation_fixes_canonical [of "''example.com''"] by simp

subsection \<open>The record mapper\<close>

lemma sint_seconds:
  assumes "0 < n" "n \<le> 9223372036"
  shows "sint (word_of_int n * Second :: 64 word) = n * 1000000000"
proof -
  have eq: "(word_of_int n * 1000000000 :: 64 word) = word_of_int (n * 1000000000)"
    by simp
  have "signed_take_bit (63::nat) (n * 1000000000) = n * 1000000000"
    using assms by (intro signed_take_bit_int_eq_self) simp_all
  then show ?thesis
    unfolding Second_def eq sint_sbintrunc' by simp
qed

lemma sint_default_ttl: "sint (Second * 600) = 600 * 1000000000"
  by (simp add: Second_def)

text \<open>
  C8, as the code has it. Name, type and value pass through unchanged. When the vendor's
  TTL parses to a positive integer of at most 9223372036, the TTL is that many seconds;
  when the field is empty, does not parse, or parses to zero or less, the TTL is 600
  seconds. (Above 9223372036 seconds the product with \<^verbatim>\<open>time.Second\<close> leaves the range of
  \<^verbatim>\<open>int64\<close> and wraps.)
\<close>

theorem toLibdnsRecord_fields_and_ttl:
  "Name (toLibdnsRecord d zone) = Zjt d
   \<and> Type (toLibdnsRecord d zone) = Lx d
   \<and> Data (toLibdnsRecord d zone) = Jxz d
   \<and> (\<forall>n. Atoi (TTLs d) = Some n \<and> 0 < n \<and> n \<le> 9223372036
          \<longrightarrow> sint (TTL (toLibdnsRecord d zone)) = n * 1000000000)
   \<and> (TTLs d = '''' \<or> Atoi (TTLs d) = None \<or> (\<exists>n. Atoi (TTLs d) = Some n \<and> n \<le> 0)
          \<longrightarrow> sint (TTL (toLibdnsRecord d zone)) = 600 * 1000000000)"
proof -
  have empty: "Atoi [] = None"
    by (simp add: Atoi_def)
  show ?thesis
    by (auto simp: toLibdnsRecord_def sint_seconds sint_default_ttl empty)
qed

text \<open>
  The vendor TTLs \<^verbatim>\<open>300\<close>, the empty string (an absent field), \<^verbatim>\<open>abc\<close>, \<^verbatim>\<open>0\<close> and
  \<^verbatim>\<open>-5\<close>.
\<close>

theorem toLibdnsRecord_fields_and_ttl_witness:
  "Atoi ''300'' = Some 300
   \<and> sint (TTL (toLibdnsRecord (demo_listed\<lparr>TTLs := ''300''\<rparr>) ''example.com''))
       = 300 * 1000000000
   \<and> sint (TTL (toLibdnsRecord (demo_listed\<lparr>TTLs := ''''\<rparr>) ''example.com''))
       = 600 * 1000000000
   \<and> Atoi ''abc'' = None
   \<and> sint (TTL (toLibdnsRecord (demo_listed\<lparr>TTLs := ''abc''\<rparr>) ''example.com''))
       = 600 * 1000000000
   \<and> Atoi ''0'' = Some 0
   \<and> sint (TTL (toLibdnsRecord (demo_listed\<lparr>TTLs := ''0''\<rparr>) ''example.com''))
       = 600 * 1000000000
   \<and> Atoi ''-5'' = Some (- 5)
   \<and> sint (TTL (toLibdnsRecord (demo_listed\<lparr>TTLs := ''-5''\<rparr>) ''example.com''))
       = 600 * 1000000000"
proof -
  have a: "Atoi ''300'' = Some 300" and b: "Atoi ''abc'' = None"
    and c: "Atoi ''0'' = Some 0" and d: "Atoi ''-5'' = Some (- 5)"
    by (simp_all add: Atoi_def is_digit_def digits_value_def)
  show ?thesis
    using a b c d
      toLibdnsRecord_fields_and_ttl [of "demo_listed\<lparr>TTLs := ''300''\<rparr>" "''example.com''"]
      toLibdnsRecord_fields_and_ttl [of "demo_listed\<lparr>TTLs := ''''\<rparr>" "''example.com''"]
      toLibdnsRecord_fields_and_ttl [of "demo_listed\<lparr>TTLs := ''abc''\<rparr>" "''example.com''"]
      toLibdnsRecord_fields_and_ttl [of "demo_listed\<lparr>TTLs := ''0''\<rparr>" "''example.com''"]
      toLibdnsRecord_fields_and_ttl [of "demo_listed\<lparr>TTLs := ''-5''\<rparr>" "''example.com''"]
    by simp
qed

text \<open>
  The claim as the spec words it fails where the seconds do not fit: the vendor TTL
  \<^verbatim>\<open>9223372037\<close> parses to a positive integer, and the TTL of the generic record is negative.
\<close>

theorem toLibdnsRecord_ttl_counterexample:
  "Atoi ''9223372037'' = Some 9223372037
   \<and> sint (TTL (toLibdnsRecord
        \<lparr>ID = ''1'', Ym = ''example.com'', Zjt = ''www'', Lx = ''A'', Jxz = ''1.1.1.1'',
         Mx = '''', Xlid = 0, Zt = '''', TTLs = ''9223372037''\<rparr> ''example.com''))
     = - 9223372036709551616
   \<and> sint (TTL (toLibdnsRecord
        \<lparr>ID = ''1'', Ym = ''example.com'', Zjt = ''www'', Lx = ''A'', Jxz = ''1.1.1.1'',
         Mx = '''', Xlid = 0, Zt = '''', TTLs = ''9223372037''\<rparr> ''example.com''))
     \<noteq> 9223372037 * 1000000000"
  by (simp add: toLibdnsRecord_def Second_def Atoi_def is_digit_def digits_value_def)

subsection \<open>The transport\<close>

lemma MakeApiRequestWithClient_invoked:
  "invoked (snd (MakeApiRequestWithClient env decode method endpoint params appKey responseType s))
   = invoked s @ [\<lparr>call_method = method, call_endpoint = endpoint, call_params = params\<rparr>]"
  by (auto simp: MakeApiRequestWithClient_def Let_def split: sum.splits prod.splits)

lemma MakeApiRequestWithClient_not_sent:
  "build_request env method endpoint params appKey (world s) = Inl err
   \<Longrightarrow> MakeApiRequestWithClient env decode method endpoint params appKey responseType s
       = (Inl err, s\<lparr>invoked := invoked s
             @ [\<lparr>call_method = method, call_endpoint = endpoint, call_params = params\<rparr>]\<rparr>)"
  by (simp add: MakeApiRequestWithClient_def)

lemma MakeApiRequestWithClient_response:
  "build_request env method endpoint params appKey (world s) = Inr req
   \<Longrightarrow> Do env req (world s) = (Inr resp, w')
   \<Longrightarrow> MakeApiRequestWithClient env decode method endpoint params appKey responseType s
       = (read_response env decode responseType resp,
          s\<lparr>invoked := invoked s
               @ [\<lparr>call_method = method, call_endpoint = endpoint, call_params = params\<rparr>],
            world := w', sent := sent s @ [req]\<rparr>)"
  by (simp add: MakeApiRequestWithClient_def)

subsection \<open>The loop\<close>

lemma for_range_append:
  "for_range body (xs @ ys) acc s =
     (case for_range body xs acc s of
        ((acc', Some err), s') \<Rightarrow> ((acc', Some err), s')
      | ((acc', None), s') \<Rightarrow> for_range body ys acc' s')"
  by (induction xs arbitrary: acc s) (auto split: sum.splits prod.splits)

lemma for_range_fail:
  assumes "for_range body pre acc s = ((ok, None), s1)"
    and "body r ok s1 = (Inl err, s2)"
  shows "for_range body (pre @ r # post) acc s = ((ok, Some err), s2)"
  using assms by (simp add: for_range_append)

lemma for_range_skip:
  assumes "\<And>acc s. body r acc s = (Inr acc, s)"
  shows "for_range body (pre @ r # post) acc s = for_range body (pre @ post) acc s"
  by (simp add: for_range_append assms split: prod.splits option.splits)

subsection \<open>The inner loop\<close>

lemma find_record_no_match:
  "(\<forall>rec \<in> set recs. \<not> same_name_type rr rec) \<Longrightarrow> find_record recs rr = (False, '''')"
  by (induction recs) (auto simp: Let_def same_name_type_def)

lemma find_record_first_match:
  "(\<forall>rec \<in> set pre. \<not> same_name_type rr rec) \<Longrightarrow> same_name_type rr rec
   \<Longrightarrow> find_record (pre @ rec # post) rr
       = (True, case rec of Vendor dnslaRec \<Rightarrow> ID dnslaRec | LibdnsRR x \<Rightarrow> '''')"
  by (induction pre) (auto simp: Let_def same_name_type_def)

lemma find_record_LibdnsRR:
  "(\<forall>rec \<in> set recs. \<exists>rr. rec = LibdnsRR rr) \<Longrightarrow> snd (find_record recs rr) = ''''"
  by (induction recs) (auto simp: Let_def)

subsection \<open>One record\<close>

lemma AppendRecords_body_eq:
  "AppendRecords_body env p zone (libdnsZoneToDnslaDomain zone) r acc s =
     (case MakeApiRequestWithClient env (Unmarshal_AddDomainRecord env) ''POST''
             ''/api/resolution/add'' (call_params (add_call env p zone (RR_of r))) (APPKey p)
             \<lparr>Code = 0, Msg = '''', Add_Data = 0\<rparr> s of
        (Inl err, s') \<Rightarrow>
          (Inl (''failed to append record '' @ Name (RR_of r) @ ''.'' @ zone @ '': '' @ err), s')
      | (Inr response, s') \<Rightarrow> (Inr (acc @ [LibdnsRR (RR_of r)]), s'))"
  by (simp add: AppendRecords_body_def add_call_def Let_def split: prod.splits sum.splits)

lemma AppendRecords_single:
  "AppendRecords env p zone [r] s =
     (case MakeApiRequestWithClient env (Unmarshal_AddDomainRecord env) ''POST''
             ''/api/resolution/add'' (call_params (add_call env p zone (RR_of r))) (APPKey p)
             \<lparr>Code = 0, Msg = '''', Add_Data = 0\<rparr> s of
        (Inl err, s') \<Rightarrow>
          (([], Some (''failed to append record '' @ Name (RR_of r) @ ''.'' @ zone @ '': '' @ err)), s')
      | (Inr response, s') \<Rightarrow> (([LibdnsRR (RR_of r)], None), s'))"
  by (simp add: AppendRecords_def AppendRecords_body_eq split: prod.splits sum.splits)

lemma SetRecords_body_create:
  assumes "find_record recs (RR_of r) = (False, x)"
  shows "SetRecords_body env p zone (libdnsZoneToDnslaDomain zone) recs r acc s =
     (case MakeApiRequestWithClient env (Unmarshal_AddDomainRecord env) ''POST''
             ''/api/resolution/add'' (call_params (add_call env p zone (RR_of r))) (APPKey p)
             \<lparr>Code = 0, Msg = '''', Add_Data = 0\<rparr> s of
        (Inl err, s') \<Rightarrow>
          (Inl (''failed to create new record: failed to append record '' @ Name (RR_of r)
                @ ''.'' @ zone @ '': '' @ err), s')
      | (Inr response, s') \<Rightarrow> (Inr (acc @ [LibdnsRR (RR_of r)]), s'))"
  using assms
  by (simp add: SetRecords_body_def AppendRecords_single split: prod.splits sum.splits)

lemma SetRecords_body_skip:
  assumes "find_record recs (RR_of r) = (True, '''')"
  shows "SetRecords_body env p zone tz recs r acc s = (Inr acc, s)"
  using assms by (simp add: SetRecords_body_def)

text \<open>
  The edit branch, for a listing whose first match carries a vendor ID: one edit call with
  that ID and the record's type, name, value and TTL; the record is appended, with the
  input's values, exactly when the response has \<^verbatim>\<open>Code\<close> 1.
\<close>

lemma SetRecords_body_edit:
  assumes "find_record recs (RR_of r) = (True, recordId)" and "recordId \<noteq> ''''"
  shows "SetRecords_body env p zone (libdnsZoneToDnslaDomain zone) recs r acc s =
     (case MakeApiRequestWithClient env (Unmarshal_UpdateDomainRecord env) ''POST''
             ''/api/resolution/edit'' (call_params (edit_call env p zone (RR_of r) recordId))
             (APPKey p) \<lparr>Code = 0, Msg = '''', Update_Data = ''''\<rparr> s of
        (Inl err, s') \<Rightarrow>
          (Inl (''failed to update record '' @ Name (RR_of r) @ ''.'' @ zone @ '': '' @ err), s')
      | (Inr response, s') \<Rightarrow>
          (Inr (if Code response = 1 then acc @ [LibdnsRR (RR_of r)] else acc), s'))"
  using assms
  by (simp add: SetRecords_body_def edit_call_def Let_def split: prod.splits sum.splits)

lemma DeleteRecords_body_skip:
  assumes "snd (find_record recs (RR_of r)) = ''''"
  shows "DeleteRecords_body env p zone tz recs r acc s = (Inr acc, s)"
  using assms by (simp add: DeleteRecords_body_def)


subsection \<open>Unfolding the definitions\<close>

lemmas demo_defs = demo_env_def demo_provider_def start_def respond_def demo_envelope_def
  body_ok_def body_denied_def body_list_def demo_listed_def demo_parse_query_def demo_record_def
lemmas model_defs = GetRecords_def SetRecords_def DeleteRecords_def AppendRecords_def
  AppendRecords_body_def SetRecords_body_def DeleteRecords_body_def
  MakeApiRequestWithClient_def build_request_def read_response_def gojoin_Join_def
  bodyStr_def gnToken_def ToUpper_def upper_char_def hex_def hex_byte_def ApiBase_def
  libdnsZoneToDnslaDomain_def TrimSuffix_def HasSuffix_def toLibdnsRecord_def
  Atoi_def is_digit_def digits_value_def Second_def itoa_def nat_digits.simps Let_def
  same_name_type_def add_call_def list_call_def edit_call_def delete_call_def

subsection \<open>Calls of a batch\<close>

lemma snd_case_sum:
  "snd (case x of (Inl e, s') \<Rightarrow> (f e, s') | (Inr v, s') \<Rightarrow> (g v, s')) = snd x"
  by (simp split: prod.splits sum.splits)

lemma SetRecords_body_invoked:
  "invoked (snd (SetRecords_body env p zone (libdnsZoneToDnslaDomain zone) recs r acc s))
   = invoked s
     @ (case find_record recs (RR_of r) of
          (False, recordId) \<Rightarrow> [add_call env p zone (RR_of r)]
        | (True, recordId) \<Rightarrow>
            if recordId = '''' then [] else [edit_call env p zone (RR_of r) recordId])"
proof -
  obtain hasRecord recordId where f: "find_record recs (RR_of r) = (hasRecord, recordId)"
    by (cases "find_record recs (RR_of r)")
  show ?thesis
  proof (cases hasRecord)
    case False
    with f show ?thesis
      by (simp add: SetRecords_body_create snd_case_sum MakeApiRequestWithClient_invoked
          add_call_def)
  next
    case True
    show ?thesis
    proof (cases "recordId = ''''")
      case True
      with f \<open>hasRecord\<close> show ?thesis
        by (simp add: SetRecords_body_skip)
    next
      case False
      with f \<open>hasRecord\<close> show ?thesis
        by (simp add: SetRecords_body_edit snd_case_sum MakeApiRequestWithClient_invoked
            edit_call_def)
    qed
  qed
qed


lemma for_range_invoked:
  assumes "\<And>r acc s. \<exists>cs. invoked (snd (body r acc s)) = invoked s @ cs \<and> (\<forall>c \<in> set cs. P c)"
  shows "\<exists>cs. invoked (snd (for_range body records acc s)) = invoked s @ cs
              \<and> (\<forall>c \<in> set cs. P c)"
proof (induction records arbitrary: acc s)
  case Nil
  then show ?case by simp
next
  case (Cons r records)
  obtain res s1 where b: "body r acc s = (res, s1)"
    by (cases "body r acc s")
  from assms [of r acc s] b obtain cs1 where
    cs1: "invoked s1 = invoked s @ cs1" "\<forall>c \<in> set cs1. P c"
    by auto
  show ?case
  proof (cases res)
    case (Inl err)
    with b cs1 show ?thesis by auto
  next
    case (Inr acc')
    from Cons.IH [of acc' s1] obtain cs2 where
      cs2: "invoked (snd (for_range body records acc' s1)) = invoked s1 @ cs2"
        "\<forall>c \<in> set cs2. P c"
      by auto
    have "invoked (snd (for_range body (r # records) acc s)) = invoked s @ (cs1 @ cs2)"
      using b Inr cs1 cs2 by simp
    moreover have "\<forall>c \<in> set (cs1 @ cs2). P c"
      using cs1 cs2 by auto
    ultimately show ?thesis by blast
  qed
qed

lemma GetRecords_invoked:
  "invoked (snd (GetRecords env p zone s)) = invoked s @ [list_call p zone]"
  by (simp add: GetRecords_def Let_def snd_case_sum MakeApiRequestWithClient_invoked
      list_call_def)

lemma GetRecords_LibdnsRR:
  "GetRecords env p zone s = (Inr recs, s') \<Longrightarrow> \<forall>rec \<in> set recs. \<exists>rr. rec = LibdnsRR rr"
  by (auto simp: GetRecords_def Let_def split: prod.splits sum.splits)

lemma SetRecords_eq:
  "SetRecords env p zone records s =
     (case GetRecords env p zone s of
        (Inl err, s') \<Rightarrow> (([], Some (''failed to get existing records: '' @ err)), s')
      | (Inr recs, s') \<Rightarrow>
          for_range (SetRecords_body env p zone (libdnsZoneToDnslaDomain zone) recs) records [] s')"
  by (simp add: SetRecords_def)

lemma DeleteRecords_eq:
  "DeleteRecords env p zone records s =
     (case GetRecords env p zone s of
        (Inl err, s') \<Rightarrow> (([], Some (''failed to get existing records: '' @ err)), s')
      | (Inr recs, s') \<Rightarrow>
          for_range (DeleteRecords_body env p zone (libdnsZoneToDnslaDomain zone) recs) records [] s')"
  by (simp add: DeleteRecords_def)



subsection \<open>The signer\<close>

lemma build_request_body:
  assumes "build_request env method endpoint params appKey w = Inr req"
  shows "\<exists>ps. parse_query env (ApiBase @ endpoint @ ''?'' @ params @ ''&gntime=''
                                @ itoa (Now_Unix env w)) = Inr ps
            \<and> ReqBody req
              = Join (map (\<lambda>(k, v). k @ ''='' @ QueryEscape env v) (sort_key fst ps)) ''&''
                @ ''&gntoken=''
                @ ToUpper (hex (md5_Sum env
                    (Join (map (\<lambda>(k, v). k @ ''='' @ QueryEscape env v) (sort_key fst ps)) ''&''
                     @ appKey)))"
  using assms
  by (auto simp: build_request_def gojoin_Join_def bodyStr_def gnToken_def Let_def
      split: option.splits sum.splits)

text \<open>
  C5. Every request that \<^verbatim>\<open>MakeApiRequestWithClient\<close> hands to the HTTP client is signed:
  the parameters read off the URL (the caller's parameter string followed by
  \<^verbatim>\<open>&gntime=\<close> and the Unix time) are put in ascending order of their keys, the order
  being the lexicographic order of the bytes, and joined as \<^verbatim>\<open>key=value\<close> with \<^verbatim>\<open>&\<close>, the values
  URL-encoded; the signature is the upper-case hexadecimal digest of that string followed
  by the secret; the body is that string, \<^verbatim>\<open>&gntoken=\<close>, and the signature. The sorting and
  joining are those of \<^const>\<open>gojoin_Join\<close>, the digest is the parameter \<^const>\<open>md5_Sum\<close>.
\<close>

theorem signed_request_body:
  assumes "MakeApiRequestWithClient env decode method endpoint params appKey responseType s
           = (res, s')"
    and "sent s' \<noteq> sent s"
  shows "\<exists>ps qs req.
           parse_query env (ApiBase @ endpoint @ ''?'' @ params @ ''&gntime=''
                            @ itoa (Now_Unix env (world s))) = Inr ps
         \<and> mset qs = mset ps \<and> sorted (map fst qs)
         \<and> sent s' = sent s @ [req]
         \<and> ReqBody req
           = Join (map (\<lambda>(k, v). k @ ''='' @ QueryEscape env v) qs) ''&''
             @ ''&gntoken=''
             @ ToUpper (hex (md5_Sum env
                 (Join (map (\<lambda>(k, v). k @ ''='' @ QueryEscape env v) qs) ''&'' @ appKey)))"
proof (cases "build_request env method endpoint params appKey (world s)")
  case (Inl err)
  with assms(1) have "sent s' = sent s"
    by (auto simp: MakeApiRequestWithClient_not_sent)
  with assms(2) show ?thesis
    by simp
next
  case (Inr req)
  from build_request_body [OF Inr] obtain ps where
    ps: "parse_query env (ApiBase @ endpoint @ ''?'' @ params @ ''&gntime=''
                          @ itoa (Now_Unix env (world s))) = Inr ps"
    and body: "ReqBody req
              = Join (map (\<lambda>(k, v). k @ ''='' @ QueryEscape env v) (sort_key fst ps)) ''&''
                @ ''&gntoken=''
                @ ToUpper (hex (md5_Sum env
                    (Join (map (\<lambda>(k, v). k @ ''='' @ QueryEscape env v) (sort_key fst ps)) ''&''
                     @ appKey)))"
    by blast
  have sent: "sent s' = sent s @ [req]"
    using assms(1) Inr
    by (auto simp: MakeApiRequestWithClient_def Let_def split: prod.splits sum.splits)
  have "mset (sort_key fst ps) = mset ps" and "sorted (map fst (sort_key fst ps))"
    by simp_all
  with ps body sent show ?thesis
    by blast
qed

text \<open>
  The list call of the scripted vendor, its parameters given out of order: the body that
  is sent has them in order, with the time stamp among them.
\<close>

theorem signed_request_body_witness:
  "sent (snd (MakeApiRequestWithClient demo_env (Unmarshal_ResolutionList demo_env) ''POST''
       ''/api/resolution/list'' ''ym=example.com&appid=id'' ''secret''
       \<lparr>Code = 0, Msg = '''', List_Data = [], Count = 0, Page = 0, PageSize = 0\<rparr>
       (start [respond 200 body_list])))
   = [\<lparr>Method = ''POST'', URL = ''https://api.gname.com/api/resolution/list'',
       ContentType = ''application/x-www-form-urlencoded'',
       ReqBody = ''appid=id&gntime=1700000000&ym=example.com&gntoken=5D41402ABC4B2A76B9719D911017C592''\<rparr>]
   \<and> (\<exists>ps qs req.
           parse_query demo_env (ApiBase @ ''/api/resolution/list'' @ ''?''
              @ ''ym=example.com&appid=id'' @ ''&gntime=''
              @ itoa (Now_Unix demo_env (world (start [respond 200 body_list])))) = Inr ps
         \<and> mset qs = mset ps \<and> sorted (map fst qs)
         \<and> sent (snd (MakeApiRequestWithClient demo_env (Unmarshal_ResolutionList demo_env)
               ''POST'' ''/api/resolution/list'' ''ym=example.com&appid=id'' ''secret''
               \<lparr>Code = 0, Msg = '''', List_Data = [], Count = 0, Page = 0, PageSize = 0\<rparr>
               (start [respond 200 body_list])))
           = sent (start [respond 200 body_list]) @ [req]
         \<and> ReqBody req
           = Join (map (\<lambda>(k, v). k @ ''='' @ QueryEscape demo_env v) qs) ''&''
             @ ''&gntoken=''
             @ ToUpper (hex (md5_Sum demo_env
                 (Join (map (\<lambda>(k, v). k @ ''='' @ QueryEscape demo_env v) qs) ''&''
                  @ ''secret''))))"
proof -
  have run: "sent (snd (MakeApiRequestWithClient demo_env (Unmarshal_ResolutionList demo_env)
       ''POST'' ''/api/resolution/list'' ''ym=example.com&appid=id'' ''secret''
       \<lparr>Code = 0, Msg = '''', List_Data = [], Count = 0, Page = 0, PageSize = 0\<rparr>
       (start [respond 200 body_list])))
   = [\<lparr>Method = ''POST'', URL = ''https://api.gname.com/api/resolution/list'',
       ContentType = ''application/x-www-form-urlencoded'',
       ReqBody = ''appid=id&gntime=1700000000&ym=example.com&gntoken=5D41402ABC4B2A76B9719D911017C592''\<rparr>]"
    by (simp add: demo_defs model_defs)
  then have ne: "sent (snd (MakeApiRequestWithClient demo_env (Unmarshal_ResolutionList demo_env)
       ''POST'' ''/api/resolution/list'' ''ym=example.com&appid=id'' ''secret''
       \<lparr>Code = 0, Msg = '''', List_Data = [], Count = 0, Page = 0, PageSize = 0\<rparr>
       (start [respond 200 body_list]))) \<noteq> sent (start [respond 200 body_list])"
    by (simp add: start_def)
  from run signed_request_body [OF prod.collapse [symmetric] ne] show ?thesis
    by (rule conjI)
qed

subsection \<open>Outcomes of a call\<close>

text \<open>
  C7, as the code has it. When the HTTP client hands back a response: a status other than
  200 fails the call with an error that carries the status and the raw body; a status of
  200 whose envelope decodes with a \<^verbatim>\<open>Code\<close> other than 1 fails it with an error that
  carries the vendor's message and code; a status of 200 whose envelope has \<^verbatim>\<open>Code\<close> 1 and
  whose payload decodes returns the payload without error. A call that fails reports no
  record: \<^verbatim>\<open>AppendRecords\<close> on the one record returns an empty list and the error.
\<close>

theorem transport_outcomes:
  assumes "build_request env method endpoint params appKey (world s) = Inr req"
    and "Do env req (world s) = (Inr resp, w')"
  shows "(StatusCode resp \<noteq> 200 \<longrightarrow>
            fst (MakeApiRequestWithClient env decode method endpoint params appKey responseType s)
            = Inl (''API request failed with status '' @ itoa (StatusCode resp) @ '': ''
                   @ Body resp))
     \<and> (StatusCode resp = 200 \<and> BodyErr resp = None
          \<and> Unmarshal_CommonResponse env (Body resp) \<lparr>Code = 0, Msg = ''''\<rparr> = Inr c
          \<and> Code c \<noteq> 1 \<longrightarrow>
            fst (MakeApiRequestWithClient env decode method endpoint params appKey responseType s)
            = Inl (''API error: '' @ Msg c @ '' (code: '' @ itoa (Code c) @ '')''))
     \<and> (StatusCode resp = 200 \<and> BodyErr resp = None
          \<and> Unmarshal_CommonResponse env (Body resp) \<lparr>Code = 0, Msg = ''''\<rparr> = Inr c
          \<and> Code c = 1 \<and> decode (Body resp) responseType = Inr v \<longrightarrow>
            fst (MakeApiRequestWithClient env decode method endpoint params appKey responseType s)
            = Inr v)
     \<and> (\<forall>r zone p st. isl (fst (MakeApiRequestWithClient env (Unmarshal_AddDomainRecord env)
                ''POST'' ''/api/resolution/add'' (call_params (add_call env p zone (RR_of r)))
                (APPKey p) \<lparr>Code = 0, Msg = '''', Add_Data = 0\<rparr> st))
          \<longrightarrow> fst (fst (AppendRecords env p zone [r] st)) = []
              \<and> snd (fst (AppendRecords env p zone [r] st)) \<noteq> None)"
proof -
  have run: "fst (MakeApiRequestWithClient env decode method endpoint params appKey responseType s)
             = read_response env decode responseType resp"
    by (simp add: MakeApiRequestWithClient_response [OF assms])
  have "\<forall>r zone p st. isl (fst (MakeApiRequestWithClient env (Unmarshal_AddDomainRecord env)
                ''POST'' ''/api/resolution/add'' (call_params (add_call env p zone (RR_of r)))
                (APPKey p) \<lparr>Code = 0, Msg = '''', Add_Data = 0\<rparr> st))
          \<longrightarrow> fst (fst (AppendRecords env p zone [r] st)) = []
              \<and> snd (fst (AppendRecords env p zone [r] st)) \<noteq> None"
    by (auto simp: AppendRecords_single split: prod.splits sum.splits)
  then show ?thesis
    unfolding run by (simp add: read_response_def)
qed

lemma demo_build_add:
  "build_request demo_env ''POST'' ''/api/resolution/add''
     ''appid=id&ym=example.com&lx=A&zj=api&jlz=2.2.2.2&ttl=300'' ''secret'' w
   = Inr \<lparr>Method = ''POST'', URL = ''https://api.gname.com/api/resolution/add'',
          ContentType = ''application/x-www-form-urlencoded'',
          ReqBody = ''appid=id&gntime=1700000000&jlz=2.2.2.2&lx=A&ttl=300&ym=example.com&zj=api&gntoken=5D41402ABC4B2A76B9719D911017C592''\<rparr>"
  by (simp add: demo_defs model_defs)

theorem transport_outcomes_witness:
  "fst (MakeApiRequestWithClient demo_env (Unmarshal_AddDomainRecord demo_env) ''POST''
          ''/api/resolution/add'' ''appid=id&ym=example.com&lx=A&zj=api&jlz=2.2.2.2&ttl=300''
          ''secret'' \<lparr>Code = 0, Msg = '''', Add_Data = 0\<rparr> (start [respond 500 ''oops'']))
     = Inl ''API request failed with status 500: oops''
   \<and> fst (MakeApiRequestWithClient demo_env (Unmarshal_AddDomainRecord demo_env) ''POST''
          ''/api/resolution/add'' ''appid=id&ym=example.com&lx=A&zj=api&jlz=2.2.2.2&ttl=300''
          ''secret'' \<lparr>Code = 0, Msg = '''', Add_Data = 0\<rparr> (start [respond 200 body_denied]))
     = Inl ''API error: invalid appid (code: 0)''
   \<and> fst (MakeApiRequestWithClient demo_env (Unmarshal_AddDomainRecord demo_env) ''POST''
          ''/api/resolution/add'' ''appid=id&ym=example.com&lx=A&zj=api&jlz=2.2.2.2&ttl=300''
          ''secret'' \<lparr>Code = 0, Msg = '''', Add_Data = 0\<rparr> (start [respond 200 body_ok]))
     = Inr \<lparr>Code = 1, Msg = ''ok'', Add_Data = 0\<rparr>"
proof -
  have do: "Do demo_env req (world (start [respond status body]))
            = (Inr \<lparr>StatusCode = status, Body = body, BodyErr = None\<rparr>, [])" for req status body
    by (simp add: demo_env_def start_def respond_def)
  note t = transport_outcomes [OF demo_build_add do,
      where decode = "Unmarshal_AddDomainRecord demo_env"
        and responseType = "\<lparr>Code = 0, Msg = '''', Add_Data = 0\<rparr>"]
  have a: "fst (MakeApiRequestWithClient demo_env (Unmarshal_AddDomainRecord demo_env) ''POST''
          ''/api/resolution/add'' ''appid=id&ym=example.com&lx=A&zj=api&jlz=2.2.2.2&ttl=300''
          ''secret'' \<lparr>Code = 0, Msg = '''', Add_Data = 0\<rparr> (start [respond 500 ''oops'']))
     = Inl ''API request failed with status 500: oops''"
    using t [of 500 "''oops''", THEN conjunct1]
    by (simp add: itoa_def nat_digits.simps)
  have b: "fst (MakeApiRequestWithClient demo_env (Unmarshal_AddDomainRecord demo_env) ''POST''
          ''/api/resolution/add'' ''appid=id&ym=example.com&lx=A&zj=api&jlz=2.2.2.2&ttl=300''
          ''secret'' \<lparr>Code = 0, Msg = '''', Add_Data = 0\<rparr> (start [respond 200 body_denied]))
     = Inl ''API error: invalid appid (code: 0)''"
    using t [of 200 body_denied "\<lparr>Code = 0, Msg = ''invalid appid''\<rparr>",
        THEN conjunct2, THEN conjunct1]
    by (simp add: itoa_def nat_digits.simps demo_env_def demo_envelope_def body_ok_def
        body_list_def body_denied_def)
  have c: "fst (MakeApiRequestWithClient demo_env (Unmarshal_AddDomainRecord demo_env) ''POST''
          ''/api/resolution/add'' ''appid=id&ym=example.com&lx=A&zj=api&jlz=2.2.2.2&ttl=300''
          ''secret'' \<lparr>Code = 0, Msg = '''', Add_Data = 0\<rparr> (start [respond 200 body_ok]))
     = Inr \<lparr>Code = 1, Msg = ''ok'', Add_Data = 0\<rparr>"
    using t [of 200 body_ok "\<lparr>Code = 1, Msg = ''ok''\<rparr>" "\<lparr>Code = 1, Msg = ''ok'', Add_Data = 0\<rparr>",
        THEN conjunct2, THEN conjunct2, THEN conjunct1]
    by (simp add: demo_env_def demo_envelope_def body_ok_def body_list_def body_denied_def)
  from a b c show ?thesis by (intro conjI)
qed

text \<open>
  The claim as the spec words it speaks of every 2xx status. The code compares the status
  with 200: a response with status 201 whose envelope has \<^verbatim>\<open>Code\<close> 1 and whose payload
  decodes is an error, not a payload, and with \<^verbatim>\<open>Code\<close> 0 the error is the one for a bad
  status, not the one that carries the vendor's message and code.
\<close>

theorem transport_status_201_counterexample:
  "fst (MakeApiRequestWithClient demo_env (Unmarshal_AddDomainRecord demo_env) ''POST''
          ''/api/resolution/add'' ''appid=id&ym=example.com&lx=A&zj=api&jlz=2.2.2.2&ttl=300''
          ''secret'' \<lparr>Code = 0, Msg = '''', Add_Data = 0\<rparr> (start [respond 201 body_ok]))
     = Inl (''API request failed with status 201: '' @ body_ok)
   \<and> Unmarshal_CommonResponse demo_env body_ok \<lparr>Code = 0, Msg = ''''\<rparr>
     = Inr \<lparr>Code = 1, Msg = ''ok''\<rparr>
   \<and> Unmarshal_AddDomainRecord demo_env body_ok \<lparr>Code = 0, Msg = '''', Add_Data = 0\<rparr>
     = Inr \<lparr>Code = 1, Msg = ''ok'', Add_Data = 0\<rparr>
   \<and> fst (MakeApiRequestWithClient demo_env (Unmarshal_AddDomainRecord demo_env) ''POST''
          ''/api/resolution/add'' ''appid=id&ym=example.com&lx=A&zj=api&jlz=2.2.2.2&ttl=300''
          ''secret'' \<lparr>Code = 0, Msg = '''', Add_Data = 0\<rparr> (start [respond 201 body_denied]))
     = Inl (''API request failed with status 201: '' @ body_denied)
   \<and> Unmarshal_CommonResponse demo_env body_denied \<lparr>Code = 0, Msg = ''''\<rparr>
     = Inr \<lparr>Code = 0, Msg = ''invalid appid''\<rparr>"
  by (simp add: demo_defs model_defs)

subsection \<open>Set: a record that is not listed\<close>

text \<open>
  C2. \<^verbatim>\<open>SetRecords\<close> has taken the listing \<open>recs\<close> at entry and processed the records
  \<open>pre\<close> of the batch without error, with result \<open>ok\<close>. For the next record \<open>r\<close>, whose
  name and type no listed record has, it makes exactly one call, the create call with the
  record's type, name, value and TTL, and no edit call: the call history of the batch up to
  \<open>r\<close> is that of the batch up to \<open>pre\<close> followed by that one call. When the call
  succeeds the record appended to the result has the input's name, type, value and TTL and
  the batch goes on with \<open>post\<close>; when it fails \<^verbatim>\<open>SetRecords\<close> returns \<open>ok\<close> and the error.
\<close>

theorem SetRecords_creates_unlisted:
  assumes "GetRecords env p zone s = (Inr recs, s0)"
    and "\<forall>rec \<in> set recs. \<not> same_name_type (RR_of r) rec"
    and "SetRecords env p zone pre s = ((ok, None), s1)"
  shows "SetRecords env p zone (pre @ r # post) s =
     (case MakeApiRequestWithClient env (Unmarshal_AddDomainRecord env) ''POST''
             ''/api/resolution/add''
             (''appid='' @ APPID p @ ''&ym='' @ libdnsZoneToDnslaDomain zone
              @ ''&lx='' @ Type (RR_of r) @ ''&zj='' @ Name (RR_of r) @ ''&jlz='' @ Data (RR_of r)
              @ ''&ttl='' @ format_seconds env (TTL (RR_of r)))
             (APPKey p) \<lparr>Code = 0, Msg = '''', Add_Data = 0\<rparr> s1 of
        (Inl err, s2) \<Rightarrow>
          ((ok, Some (''failed to create new record: failed to append record ''
                      @ Name (RR_of r) @ ''.'' @ zone @ '': '' @ err)), s2)
      | (Inr response, s2) \<Rightarrow>
          for_range (SetRecords_body env p zone (libdnsZoneToDnslaDomain zone) recs) post
            (ok @ [LibdnsRR \<lparr>Name = Name (RR_of r), TTL = TTL (RR_of r),
                              Type = Type (RR_of r), Data = Data (RR_of r)\<rparr>]) s2)
   \<and> invoked (snd (SetRecords env p zone (pre @ [r]) s))
       = invoked (snd (SetRecords env p zone pre s)) @ [add_call env p zone (RR_of r)]
   \<and> (fst (SetRecords env p zone (pre @ [r]) s)
         = (ok @ [LibdnsRR \<lparr>Name = Name (RR_of r), TTL = TTL (RR_of r),
                            Type = Type (RR_of r), Data = Data (RR_of r)\<rparr>], None)
        \<or> (\<exists>err. fst (SetRecords env p zone (pre @ [r]) s)
                   = (ok, Some (''failed to create new record: '' @ err))))"
proof -
  let ?body = "SetRecords_body env p zone (libdnsZoneToDnslaDomain zone) recs"
  let ?call = "MakeApiRequestWithClient env (Unmarshal_AddDomainRecord env) ''POST''
             ''/api/resolution/add'' (call_params (add_call env p zone (RR_of r))) (APPKey p)
             \<lparr>Code = 0, Msg = '''', Add_Data = 0\<rparr> s1"
  have nf: "find_record recs (RR_of r) = (False, '''')"
    using assms(2) by (rule find_record_no_match)
  have set: "SetRecords env p zone records s = for_range ?body records [] s0" for records
    using assms(1) by (simp add: SetRecords_eq)
  from assms(3) have pre: "for_range ?body pre [] s0 = ((ok, None), s1)"
    by (simp add: set)
  have body: "?body r ok s1 =
     (case ?call of
        (Inl err, s') \<Rightarrow>
          (Inl (''failed to create new record: failed to append record '' @ Name (RR_of r)
                @ ''.'' @ zone @ '': '' @ err), s')
      | (Inr response, s') \<Rightarrow> (Inr (ok @ [LibdnsRR (RR_of r)]), s'))"
    by (rule SetRecords_body_create [OF nf])
  have run: "SetRecords env p zone (pre @ r # post) s =
     (case ?call of
        (Inl err, s2) \<Rightarrow>
          ((ok, Some (''failed to create new record: failed to append record ''
                      @ Name (RR_of r) @ ''.'' @ zone @ '': '' @ err)), s2)
      | (Inr response, s2) \<Rightarrow> for_range ?body post (ok @ [LibdnsRR (RR_of r)]) s2)" for post
    by (simp add: set for_range_append pre body split: prod.splits sum.splits)
  have inv: "invoked (snd (SetRecords env p zone (pre @ [r]) s))
       = invoked (snd (SetRecords env p zone pre s)) @ [add_call env p zone (RR_of r)]"
    using MakeApiRequestWithClient_invoked [of env "Unmarshal_AddDomainRecord env" "''POST''"
        "''/api/resolution/add''" "call_params (add_call env p zone (RR_of r))" "APPKey p"
        "\<lparr>Code = 0, Msg = '''', Add_Data = 0\<rparr>" s1]
    by (simp add: run [of "[]"] assms(3)) (auto simp: add_call_def split: prod.splits sum.splits)
  have res: "fst (SetRecords env p zone (pre @ [r]) s) = (ok @ [LibdnsRR (RR_of r)], None)
        \<or> (\<exists>err. fst (SetRecords env p zone (pre @ [r]) s)
                   = (ok, Some (''failed to create new record: '' @ err)))"
    by (simp add: run [of "[]"]) (auto split: prod.splits sum.splits)
  have rr: "\<lparr>Name = Name (RR_of r), TTL = TTL (RR_of r),
              Type = Type (RR_of r), Data = Data (RR_of r)\<rparr> = RR_of r"
    by simp
  have ps: "''appid='' @ APPID p @ ''&ym='' @ libdnsZoneToDnslaDomain zone
              @ ''&lx='' @ Type (RR_of r) @ ''&zj='' @ Name (RR_of r) @ ''&jlz='' @ Data (RR_of r)
              @ ''&ttl='' @ format_seconds env (TTL (RR_of r))
            = call_params (add_call env p zone (RR_of r))"
    by (simp add: add_call_def)
  show ?thesis
    unfolding rr ps using run [of post] inv res by (intro conjI)
qed

text \<open>
  A batch of two records that the scripted vendor does not list: the call history is the
  list call and one create call for each, and both records are returned.
\<close>

theorem SetRecords_creates_unlisted_witness:
  "GetRecords demo_env demo_provider ''example.com.''
       (start [respond 200 body_list, respond 200 body_ok, respond 200 body_ok])
     = (Inr [LibdnsRR \<lparr>Name = ''www'', TTL = 600 * Second, Type = ''A'', Data = ''1.1.1.1''\<rparr>],
        snd (GetRecords demo_env demo_provider ''example.com.''
               (start [respond 200 body_list, respond 200 body_ok, respond 200 body_ok])))
   \<and> \<not> (\<exists>rec \<in> set [LibdnsRR \<lparr>Name = ''www'', TTL = 600 * Second, Type = ''A'',
                                 Data = ''1.1.1.1''\<rparr>].
          same_name_type (RR_of (demo_record ''api'' ''A'' ''2.2.2.2'' 300)) rec)
   \<and> fst (SetRecords demo_env demo_provider ''example.com.''
          [demo_record ''ftp'' ''A'' ''3.3.3.3'' 60]
          (start [respond 200 body_list, respond 200 body_ok, respond 200 body_ok]))
     = ([demo_record ''ftp'' ''A'' ''3.3.3.3'' 60], None)
   \<and> fst (SetRecords demo_env demo_provider ''example.com.''
          [demo_record ''ftp'' ''A'' ''3.3.3.3'' 60, demo_record ''api'' ''A'' ''2.2.2.2'' 300]
          (start [respond 200 body_list, respond 200 body_ok, respond 200 body_ok]))
     = ([demo_record ''ftp'' ''A'' ''3.3.3.3'' 60, demo_record ''api'' ''A'' ''2.2.2.2'' 300],
        None)
   \<and> invoked (snd (SetRecords demo_env demo_provider ''example.com.''
          [demo_record ''ftp'' ''A'' ''3.3.3.3'' 60, demo_record ''api'' ''A'' ''2.2.2.2'' 300]
          (start [respond 200 body_list, respond 200 body_ok, respond 200 body_ok])))
     = [\<lparr>call_method = ''POST'', call_endpoint = ''/api/resolution/list'',
         call_params = ''appid=id&ym=example.com''\<rparr>,
        \<lparr>call_method = ''POST'', call_endpoint = ''/api/resolution/add'',
         call_params = ''appid=id&ym=example.com&lx=A&zj=ftp&jlz=3.3.3.3&ttl=60''\<rparr>,
        \<lparr>call_method = ''POST'', call_endpoint = ''/api/resolution/add'',
         call_params = ''appid=id&ym=example.com&lx=A&zj=api&jlz=2.2.2.2&ttl=300''\<rparr>]"
proof -
  let ?S = "start [respond 200 body_list, respond 200 body_ok, respond 200 body_ok]"
  let ?recs = "[LibdnsRR \<lparr>Name = ''www'', TTL = 600 * Second, Type = ''A'', Data = ''1.1.1.1''\<rparr>]"
  let ?ftp = "demo_record ''ftp'' ''A'' ''3.3.3.3'' 60"
  let ?api = "demo_record ''api'' ''A'' ''2.2.2.2'' 300"
  have g: "GetRecords demo_env demo_provider ''example.com.'' ?S
           = (Inr ?recs, snd (GetRecords demo_env demo_provider ''example.com.'' ?S))"
    by (simp add: demo_defs model_defs)
  have n: "\<forall>rec \<in> set ?recs. \<not> same_name_type (RR_of ?api) rec"
    by (simp add: same_name_type_def demo_record_def)
  have run: "SetRecords demo_env demo_provider ''example.com.'' [?ftp] ?S
        = (([?ftp], None),
           \<lparr>world = [respond 200 body_ok],
            invoked = [\<lparr>call_method = ''POST'', call_endpoint = ''/api/resolution/list'',
                        call_params = ''appid=id&ym=example.com''\<rparr>,
                       \<lparr>call_method = ''POST'', call_endpoint = ''/api/resolution/add'',
                        call_params = ''appid=id&ym=example.com&lx=A&zj=ftp&jlz=3.3.3.3&ttl=60''\<rparr>],
            sent = [\<lparr>Method = ''POST'', URL = ''https://api.gname.com/api/resolution/list'',
                     ContentType = ''application/x-www-form-urlencoded'',
                     ReqBody = ''appid=id&gntime=1700000000&ym=example.com&gntoken=5D41402ABC4B2A76B9719D911017C592''\<rparr>,
                    \<lparr>Method = ''POST'', URL = ''https://api.gname.com/api/resolution/add'',
                     ContentType = ''application/x-www-form-urlencoded'',
                     ReqBody = ''appid=id&gntime=1700000000&jlz=3.3.3.3&lx=A&ttl=60&ym=example.com&zj=ftp&gntoken=5D41402ABC4B2A76B9719D911017C592''\<rparr>]\<rparr>)"
    by (simp add: demo_defs model_defs)
  note t = SetRecords_creates_unlisted [OF g n run, where post = "[]"]
  from t [THEN conjunct2, THEN conjunct1]
  have i: "invoked (snd (SetRecords demo_env demo_provider ''example.com.'' [?ftp, ?api] ?S))
     = [\<lparr>call_method = ''POST'', call_endpoint = ''/api/resolution/list'',
         call_params = ''appid=id&ym=example.com''\<rparr>,
        \<lparr>call_method = ''POST'', call_endpoint = ''/api/resolution/add'',
         call_params = ''appid=id&ym=example.com&lx=A&zj=ftp&jlz=3.3.3.3&ttl=60''\<rparr>,
        \<lparr>call_method = ''POST'', call_endpoint = ''/api/resolution/add'',
         call_params = ''appid=id&ym=example.com&lx=A&zj=api&jlz=2.2.2.2&ttl=300''\<rparr>]"
    by (simp add: run)
       (simp add: add_call_def demo_env_def demo_provider_def demo_record_def
          libdnsZoneToDnslaDomain_def TrimSuffix_def HasSuffix_def Second_def itoa_def
          nat_digits.simps)
  from t [THEN conjunct1]
  have f: "fst (SetRecords demo_env demo_provider ''example.com.'' [?ftp, ?api] ?S)
           = ([?ftp, ?api], None)"
    by (simp add: demo_defs model_defs)
  have p: "fst (SetRecords demo_env demo_provider ''example.com.'' [?ftp] ?S) = ([?ftp], None)"
    by (simp add: run)
  have n': "\<not> (\<exists>rec \<in> set ?recs. same_name_type (RR_of ?api) rec)"
    using n by simp
  from g n' p f i show ?thesis
    by (intro conjI)
qed

subsection \<open>Records that are skipped\<close>

lemma DeleteRecords_body_result:
  "DeleteRecords_body env p zone tz recs r acc s = (Inr acc', s')
   \<Longrightarrow> acc' = acc \<or> (acc' = acc @ [LibdnsRR (RR_of r)] \<and> snd (find_record recs (RR_of r)) \<noteq> '''')"
  by (auto simp: DeleteRecords_body_def Let_def split: if_splits prod.splits sum.splits)

lemma DeleteRecords_loop_members:
  "for_range (DeleteRecords_body env p zone tz recs) records acc s = ((deleted, e), s')
   \<Longrightarrow> x \<in> set deleted
   \<Longrightarrow> x \<in> set acc \<or> (\<exists>r \<in> set records. x = LibdnsRR (RR_of r)
                              \<and> snd (find_record recs (RR_of r)) \<noteq> '''')"
proof (induction records arbitrary: acc s)
  case Nil
  then show ?case by simp
next
  case (Cons r records)
  obtain res s1 where b: "DeleteRecords_body env p zone tz recs r acc s = (res, s1)"
    by (cases "DeleteRecords_body env p zone tz recs r acc s")
  show ?case
  proof (cases res)
    case (Inl err)
    with Cons.prems b show ?thesis by simp
  next
    case (Inr acc')
    with Cons.prems b
    have "for_range (DeleteRecords_body env p zone tz recs) records acc' s1 = ((deleted, e), s')"
      by simp
    from Cons.IH [OF this Cons.prems(2)] DeleteRecords_body_result [OF b [unfolded Inr]]
    show ?thesis by auto
  qed
qed

text \<open>
  C3. One iteration of the loop of \<^verbatim>\<open>DeleteRecords\<close> for a record whose name and type no
  listed record has: the state is unchanged, so no call is made and nothing is sent, the
  result list is unchanged, and the loop goes on. Whatever the batch, the record is not in
  the list of deleted records.
\<close>

theorem DeleteRecords_skips_unlisted:
  assumes "\<forall>rec \<in> set recs. \<not> same_name_type (RR_of r) rec"
  shows "DeleteRecords_body env p zone tz recs r acc s = (Inr acc, s)
     \<and> (\<forall>records. LibdnsRR (RR_of r)
            \<notin> set (fst (fst (for_range (DeleteRecords_body env p zone tz recs) records [] s))))"
proof -
  have nf: "find_record recs (RR_of r) = (False, '''')"
    using assms by (rule find_record_no_match)
  then have skip: "DeleteRecords_body env p zone tz recs r acc s = (Inr acc, s)"
    by (simp add: DeleteRecords_body_skip)
  have "LibdnsRR (RR_of r)
          \<notin> set (fst (fst (for_range (DeleteRecords_body env p zone tz recs) records [] s)))"
    for records
  proof
    assume m: "LibdnsRR (RR_of r)
          \<in> set (fst (fst (for_range (DeleteRecords_body env p zone tz recs) records [] s)))"
    obtain deleted e s' where
      run: "for_range (DeleteRecords_body env p zone tz recs) records [] s = ((deleted, e), s')"
      by (metis prod.exhaust)
    from m run have "LibdnsRR (RR_of r) \<in> set deleted"
      by simp
    from DeleteRecords_loop_members [OF run this]
    obtain r' where "LibdnsRR (RR_of r) = LibdnsRR (RR_of r')"
      and "snd (find_record recs (RR_of r')) \<noteq> ''''"
      by auto
    with nf show False
      by simp
  qed
  with skip show ?thesis by simp
qed

theorem DeleteRecords_skips_unlisted_witness:
  "\<not> (\<exists>rec \<in> set [LibdnsRR (toLibdnsRecord demo_listed ''example.com'')].
        same_name_type (RR_of (demo_record ''api'' ''A'' ''2.2.2.2'' 300)) rec)
   \<and> DeleteRecords_body demo_env demo_provider ''example.com.'' ''example.com''
        [LibdnsRR (toLibdnsRecord demo_listed ''example.com'')]
        (demo_record ''api'' ''A'' ''2.2.2.2'' 300) [] (start [])
      = (Inr [], \<lparr>world = [], invoked = [], sent = []\<rparr>)"
proof -
  have h: "\<forall>rec \<in> set [LibdnsRR (toLibdnsRecord demo_listed ''example.com'')].
       \<not> same_name_type (RR_of (demo_record ''api'' ''A'' ''2.2.2.2'' 300)) rec"
    by (simp add: demo_listed_def demo_record_def same_name_type_def toLibdnsRecord_def)
  from DeleteRecords_skips_unlisted [OF h, of demo_env demo_provider "''example.com.''"
        "''example.com''" "[]" "start []"]
  have "DeleteRecords_body demo_env demo_provider ''example.com.'' ''example.com''
        [LibdnsRR (toLibdnsRecord demo_listed ''example.com'')]
        (demo_record ''api'' ''A'' ''2.2.2.2'' 300) [] (start []) = (Inr [], start [])"
    by (rule conjunct1)
  with h show ?thesis by (simp add: start_def)
qed

text \<open>
  C4. A record whose first match in the listing gives no vendor ID (the match is not a
  \<^verbatim>\<open>DomainResolutionRecord\<close>, or its \<^verbatim>\<open>ID\<close> is empty) is skipped by \<^verbatim>\<open>SetRecords\<close> and by
  \<^verbatim>\<open>DeleteRecords\<close>: the iteration makes no call, changes neither the state nor the result
  list and returns no error, and the whole batch runs as it would without that record.
\<close>

theorem unresolved_id_is_skipped:
  assumes "\<forall>x \<in> set before. \<not> same_name_type (RR_of r) x"
    and "same_name_type (RR_of r) rec"
    and "(case rec of Vendor dnslaRec \<Rightarrow> ID dnslaRec | LibdnsRR x \<Rightarrow> '''') = ''''"
  shows "SetRecords_body env p zone tz (before @ rec # after) r acc s = (Inr acc, s)
     \<and> DeleteRecords_body env p zone tz (before @ rec # after) r acc s = (Inr acc, s)
     \<and> for_range (SetRecords_body env p zone tz (before @ rec # after)) (pre @ r # post) acc s
         = for_range (SetRecords_body env p zone tz (before @ rec # after)) (pre @ post) acc s
     \<and> for_range (DeleteRecords_body env p zone tz (before @ rec # after)) (pre @ r # post) acc s
         = for_range (DeleteRecords_body env p zone tz (before @ rec # after)) (pre @ post) acc s"
proof -
  have f: "find_record (before @ rec # after) (RR_of r) = (True, '''')"
    using find_record_first_match [OF assms(1,2), of after] assms(3) by simp
  have a: "SetRecords_body env p zone tz (before @ rec # after) r acc s = (Inr acc, s)" for acc s
    using f by (rule SetRecords_body_skip)
  have b: "DeleteRecords_body env p zone tz (before @ rec # after) r acc s = (Inr acc, s)" for acc s
    using f by (simp add: DeleteRecords_body_skip)
  show ?thesis
    using a b for_range_skip [of "SetRecords_body env p zone tz (before @ rec # after)" r, OF a]
      for_range_skip [of "DeleteRecords_body env p zone tz (before @ rec # after)" r, OF b]
    by simp
qed

theorem unresolved_id_is_skipped_witness:
  "\<not> (\<exists>x \<in> set [LibdnsRR \<lparr>Name = ''mail'', TTL = 600 * Second, Type = ''MX'',
                               Data = ''mx.example.com''\<rparr>].
        same_name_type (RR_of (demo_record ''www'' ''A'' ''2.2.2.2'' 300)) x)
   \<and> same_name_type (RR_of (demo_record ''www'' ''A'' ''2.2.2.2'' 300))
        (LibdnsRR (toLibdnsRecord demo_listed ''example.com''))
   \<and> SetRecords_body demo_env demo_provider ''example.com.'' ''example.com''
        [LibdnsRR \<lparr>Name = ''mail'', TTL = 600 * Second, Type = ''MX'',
                   Data = ''mx.example.com''\<rparr>,
         LibdnsRR (toLibdnsRecord demo_listed ''example.com'')]
        (demo_record ''www'' ''A'' ''2.2.2.2'' 300) [] (start [])
      = (Inr [], \<lparr>world = [], invoked = [], sent = []\<rparr>)
   \<and> DeleteRecords_body demo_env demo_provider ''example.com.'' ''example.com''
        [LibdnsRR \<lparr>Name = ''mail'', TTL = 600 * Second, Type = ''MX'',
                   Data = ''mx.example.com''\<rparr>,
         LibdnsRR (toLibdnsRecord demo_listed ''example.com'')]
        (demo_record ''www'' ''A'' ''2.2.2.2'' 300) [] (start [])
      = (Inr [], \<lparr>world = [], invoked = [], sent = []\<rparr>)"
proof -
  have h1: "\<forall>x \<in> set [LibdnsRR \<lparr>Name = ''mail'', TTL = 600 * Second, Type = ''MX'',
                                Data = ''mx.example.com''\<rparr>].
              \<not> same_name_type (RR_of (demo_record ''www'' ''A'' ''2.2.2.2'' 300)) x"
    by (simp add: demo_record_def same_name_type_def)
  have h2: "same_name_type (RR_of (demo_record ''www'' ''A'' ''2.2.2.2'' 300))
        (LibdnsRR (toLibdnsRecord demo_listed ''example.com''))"
    by (simp add: demo_listed_def demo_record_def same_name_type_def toLibdnsRecord_def)
  have h3: "(case LibdnsRR (toLibdnsRecord demo_listed ''example.com'') of
         Vendor dnslaRec \<Rightarrow> ID dnslaRec | LibdnsRR x \<Rightarrow> '''') = ''''"
    by simp
  from unresolved_id_is_skipped [OF h1 h2 h3, of demo_env demo_provider "''example.com.''"
      "''example.com''" "[]" "[]" "start []"] h1 h2
  show ?thesis by (simp add: start_def)
qed

subsection \<open>A failure in the middle of a batch\<close>

text \<open>
  C6. When the records \<open>pre\<close> have been processed without error, with result \<open>ok\<close>, and
  the operation on the next record \<open>r\<close> fails with \<open>err\<close>, the batch \<open>pre @ r # post\<close>
  returns \<open>ok\<close> together with \<open>err\<close>, in the state the failed operation left: the records
  \<open>post\<close> are not processed, and what had succeeded is reported. For \<^verbatim>\<open>DeleteRecords\<close> the
  statement is about its loop over any listing: on a listing that \<^const>\<open>GetRecords\<close> returned
  the loop makes no call at all (\<open>DeleteRecords_never_deletes\<close> below), so nothing can fail.
\<close>

theorem batch_stops_at_first_failure:
  "(AppendRecords env p zone pre s = ((ok, None), s1)
      \<and> AppendRecords_body env p zone (libdnsZoneToDnslaDomain zone) r ok s1 = (Inl err, s2)
     \<longrightarrow> AppendRecords env p zone (pre @ r # post) s = ((ok, Some err), s2))
   \<and> (GetRecords env p zone s = (Inr recs, s0)
      \<and> SetRecords env p zone pre s = ((ok, None), s1)
      \<and> SetRecords_body env p zone (libdnsZoneToDnslaDomain zone) recs r ok s1 = (Inl err, s2)
     \<longrightarrow> SetRecords env p zone (pre @ r # post) s = ((ok, Some err), s2))
   \<and> (for_range (DeleteRecords_body env p zone tz listing) pre [] s = ((ok, None), s1)
      \<and> DeleteRecords_body env p zone tz listing r ok s1 = (Inl err, s2)
     \<longrightarrow> for_range (DeleteRecords_body env p zone tz listing) (pre @ r # post) [] s
          = ((ok, Some err), s2))"
proof (intro conjI impI)
  assume "AppendRecords env p zone pre s = ((ok, None), s1)
      \<and> AppendRecords_body env p zone (libdnsZoneToDnslaDomain zone) r ok s1 = (Inl err, s2)"
  then show "AppendRecords env p zone (pre @ r # post) s = ((ok, Some err), s2)"
    unfolding AppendRecords_def by (auto intro: for_range_fail)
next
  assume "GetRecords env p zone s = (Inr recs, s0)
      \<and> SetRecords env p zone pre s = ((ok, None), s1)
      \<and> SetRecords_body env p zone (libdnsZoneToDnslaDomain zone) recs r ok s1 = (Inl err, s2)"
  then show "SetRecords env p zone (pre @ r # post) s = ((ok, Some err), s2)"
    unfolding SetRecords_def by (auto simp: Let_def intro: for_range_fail)
next
  assume "for_range (DeleteRecords_body env p zone tz listing) pre [] s = ((ok, None), s1)
      \<and> DeleteRecords_body env p zone tz listing r ok s1 = (Inl err, s2)"
  then show "for_range (DeleteRecords_body env p zone tz listing) (pre @ r # post) [] s
          = ((ok, Some err), s2)"
    by (auto intro: for_range_fail)
qed

text \<open>
  Three batches of three records against a vendor that accepts the first record and
  answers the second with status 500. The listing of the third batch holds vendor records,
  so that its loop has something to delete.
\<close>

theorem batch_stops_at_first_failure_witness:
  "fst (AppendRecords demo_env demo_provider ''example.com.''
          [demo_record ''a'' ''A'' ''1.1.1.1'' 300, demo_record ''b'' ''A'' ''1.1.1.2'' 300,
           demo_record ''c'' ''A'' ''1.1.1.3'' 300]
          (start [respond 200 body_ok, respond 500 ''oops'']))
     = ([demo_record ''a'' ''A'' ''1.1.1.1'' 300],
        Some ''failed to append record b.example.com.: API request failed with status 500: oops'')
   \<and> fst (SetRecords demo_env demo_provider ''example.com.''
          [demo_record ''a'' ''A'' ''1.1.1.1'' 300, demo_record ''b'' ''A'' ''1.1.1.2'' 300,
           demo_record ''c'' ''A'' ''1.1.1.3'' 300]
          (start [respond 200 body_list, respond 200 body_ok, respond 500 ''oops'']))
     = ([demo_record ''a'' ''A'' ''1.1.1.1'' 300],
        Some ''failed to create new record: failed to append record b.example.com.: API request failed with status 500: oops'')
   \<and> fst (for_range (DeleteRecords_body demo_env demo_provider ''example.com.'' ''example.com''
                      [Vendor demo_listed, Vendor (demo_listed\<lparr>ID := ''2'', Zjt := ''mail''\<rparr>)])
          [demo_record ''www'' ''A'' '''' 0, demo_record ''mail'' ''A'' '''' 0,
           demo_record ''ftp'' ''A'' '''' 0] []
          (start [respond 200 body_ok, respond 500 ''oops'']))
     = ([demo_record ''www'' ''A'' '''' 0],
        Some ''failed to delete record mail.example.com.: API request failed with status 500: oops'')"
proof -
  let ?a = "demo_record ''a'' ''A'' ''1.1.1.1'' 300"
  let ?b = "demo_record ''b'' ''A'' ''1.1.1.2'' 300"
  let ?c = "demo_record ''c'' ''A'' ''1.1.1.3'' 300"
  let ?A = "start [respond 200 body_ok, respond 500 ''oops'']"
  let ?S = "start [respond 200 body_list, respond 200 body_ok, respond 500 ''oops'']"
  let ?recs = "[LibdnsRR \<lparr>Name = ''www'', TTL = 600 * Second, Type = ''A'', Data = ''1.1.1.1''\<rparr>]"
  let ?listing = "[Vendor demo_listed, Vendor (demo_listed\<lparr>ID := ''2'', Zjt := ''mail''\<rparr>)]"
  let ?www = "demo_record ''www'' ''A'' '''' 0"
  let ?mail = "demo_record ''mail'' ''A'' '''' 0"
  let ?ftp = "demo_record ''ftp'' ''A'' '''' 0"
  note t = batch_stops_at_first_failure [where env = demo_env and p = demo_provider
      and zone = "''example.com.''"]
  have a1: "AppendRecords demo_env demo_provider ''example.com.'' [?a] ?A
            = (([?a], None), snd (AppendRecords demo_env demo_provider ''example.com.'' [?a] ?A))"
    by (simp add: demo_defs model_defs)
  have a2: "AppendRecords_body demo_env demo_provider ''example.com.''
              (libdnsZoneToDnslaDomain ''example.com.'') ?b [?a]
              (snd (AppendRecords demo_env demo_provider ''example.com.'' [?a] ?A))
            = (Inl ''failed to append record b.example.com.: API request failed with status 500: oops'',
               snd (AppendRecords_body demo_env demo_provider ''example.com.''
                      (libdnsZoneToDnslaDomain ''example.com.'') ?b [?a]
                      (snd (AppendRecords demo_env demo_provider ''example.com.'' [?a] ?A))))"
    by (simp add: demo_defs model_defs)
  from t [THEN conjunct1, rule_format, OF conjI [OF a1 a2], of "[?c]"]
  have A: "fst (AppendRecords demo_env demo_provider ''example.com.'' [?a, ?b, ?c] ?A)
     = ([?a], Some ''failed to append record b.example.com.: API request failed with status 500: oops'')"
    by simp
  have s0: "GetRecords demo_env demo_provider ''example.com.'' ?S
            = (Inr ?recs, snd (GetRecords demo_env demo_provider ''example.com.'' ?S))"
    by (simp add: demo_defs model_defs)
  have s1: "SetRecords demo_env demo_provider ''example.com.'' [?a] ?S
            = (([?a], None), snd (SetRecords demo_env demo_provider ''example.com.'' [?a] ?S))"
    by (simp add: demo_defs model_defs)
  have s2: "SetRecords_body demo_env demo_provider ''example.com.''
              (libdnsZoneToDnslaDomain ''example.com.'') ?recs ?b [?a]
              (snd (SetRecords demo_env demo_provider ''example.com.'' [?a] ?S))
            = (Inl ''failed to create new record: failed to append record b.example.com.: API request failed with status 500: oops'',
               snd (SetRecords_body demo_env demo_provider ''example.com.''
                      (libdnsZoneToDnslaDomain ''example.com.'') ?recs ?b [?a]
                      (snd (SetRecords demo_env demo_provider ''example.com.'' [?a] ?S))))"
    by (simp add: demo_defs model_defs)
  from t [THEN conjunct2, THEN conjunct1, rule_format, OF conjI [OF s0 conjI [OF s1 s2]], of "[?c]"]
  have S: "fst (SetRecords demo_env demo_provider ''example.com.'' [?a, ?b, ?c] ?S)
     = ([?a], Some ''failed to create new record: failed to append record b.example.com.: API request failed with status 500: oops'')"
    by simp
  have d1: "for_range (DeleteRecords_body demo_env demo_provider ''example.com.'' ''example.com''
               ?listing) [?www] [] ?A
            = (([?www], None),
               snd (for_range (DeleteRecords_body demo_env demo_provider ''example.com.''
                      ''example.com'' ?listing) [?www] [] ?A))"
    by (simp add: demo_defs model_defs)
  have d2: "DeleteRecords_body demo_env demo_provider ''example.com.'' ''example.com'' ?listing
              ?mail [?www]
              (snd (for_range (DeleteRecords_body demo_env demo_provider ''example.com.''
                      ''example.com'' ?listing) [?www] [] ?A))
            = (Inl ''failed to delete record mail.example.com.: API request failed with status 500: oops'',
               snd (DeleteRecords_body demo_env demo_provider ''example.com.'' ''example.com''
                      ?listing ?mail [?www]
                      (snd (for_range (DeleteRecords_body demo_env demo_provider ''example.com.''
                              ''example.com'' ?listing) [?www] [] ?A))))"
    by (simp add: demo_defs model_defs)
  from t [THEN conjunct2, THEN conjunct2, rule_format, OF conjI [OF d1 d2], of "[?ftp]"]
  have D: "fst (for_range (DeleteRecords_body demo_env demo_provider ''example.com.''
                  ''example.com'' ?listing) [?www, ?mail, ?ftp] [] ?A)
     = ([?www], Some ''failed to delete record mail.example.com.: API request failed with status 500: oops'')"
    by simp
  from A S D show ?thesis
    by (intro conjI)
qed

subsection \<open>One listing per batch\<close>




subsection \<open>Set: a record that is listed\<close>

text \<open>
  The edit branch at work, on a listing that holds the vendor's record itself: one edit
  call with \<^verbatim>\<open>jxid=1\<close> and the new value, and the record returned has the new value.
\<close>

lemma demo_edit_branch:
  "SetRecords_body demo_env demo_provider ''example.com.'' ''example.com''
     [Vendor demo_listed] (demo_record ''www'' ''A'' ''2.2.2.2'' 300) []
     (start [respond 200 body_ok])
   = (Inr [demo_record ''www'' ''A'' ''2.2.2.2'' 300],
      \<lparr>world = [],
       invoked = [\<lparr>call_method = ''POST'', call_endpoint = ''/api/resolution/edit'',
                   call_params = ''appid=id&ym=example.com&lx=A&zj=www&jlz=2.2.2.2&ttl=300&jxid=1''\<rparr>],
       sent = [\<lparr>Method = ''POST'', URL = ''https://api.gname.com/api/resolution/edit'',
                ContentType = ''application/x-www-form-urlencoded'',
                ReqBody = ''appid=id&gntime=1700000000&jlz=2.2.2.2&jxid=1&lx=A&ttl=300&ym=example.com&zj=www&gntoken=5D41402ABC4B2A76B9719D911017C592''\<rparr>]\<rparr>)"
  by (simp add: demo_defs model_defs)

text \<open>
  \<^const>\<open>GetRecords\<close> turns every vendor record into a \<^verbatim>\<open>libdns.RR\<close>, which has no ID, so the
  type assertion of the inner loop never succeeds on its listing. Whatever the vendor
  answers, \<^verbatim>\<open>SetRecords\<close> makes no edit call and \<^verbatim>\<open>DeleteRecords\<close> makes no delete call.
\<close>

lemma SetRecords_never_edits:
  "\<exists>cs. invoked (snd (SetRecords env p zone records s)) = invoked s @ list_call p zone # cs
        \<and> (\<forall>c \<in> set cs. call_endpoint c = ''/api/resolution/add'')"
proof -
  obtain res s0 where g: "GetRecords env p zone s = (res, s0)"
    by (cases "GetRecords env p zone s")
  with GetRecords_invoked [of env p zone s]
  have s0: "invoked s0 = invoked s @ [list_call p zone]"
    by simp
  show ?thesis
  proof (cases res)
    case (Inl err)
    with g s0 show ?thesis by (simp add: SetRecords_eq)
  next
    case (Inr recs)
    with g have "\<forall>rec \<in> set recs. \<exists>rr. rec = LibdnsRR rr"
      by (auto dest: GetRecords_LibdnsRR)
    then have noid: "snd (find_record recs rr) = ''''" for rr
      by (rule find_record_LibdnsRR)
    have "\<exists>cs. invoked (snd (SetRecords_body env p zone (libdnsZoneToDnslaDomain zone) recs r acc st))
                = invoked st @ cs
              \<and> (\<forall>c \<in> set cs. call_endpoint c = ''/api/resolution/add'')" for r acc st
    proof -
      obtain h i where f: "find_record recs (RR_of r) = (h, i)"
        by (cases "find_record recs (RR_of r)")
      with noid [of "RR_of r"] have "i = []"
        by simp
      with f show ?thesis
        unfolding SetRecords_body_invoked by (cases h) (simp_all add: add_call_def)
    qed
    from for_range_invoked [where P = "\<lambda>c. call_endpoint c = ''/api/resolution/add''"
        and body = "SetRecords_body env p zone (libdnsZoneToDnslaDomain zone) recs", OF this,
        of records "[]" s0]
    show ?thesis
      using g Inr s0 by (auto simp: SetRecords_eq)
  qed
qed

lemma for_range_all_skipped:
  assumes "\<And>r acc s. body r acc s = (Inr acc, s)"
  shows "for_range body records acc s = ((acc, None), s)"
  by (induction records) (simp_all add: assms)

lemma DeleteRecords_never_deletes:
  "DeleteRecords env p zone records s =
     (case GetRecords env p zone s of
        (Inl err, s') \<Rightarrow> (([], Some (''failed to get existing records: '' @ err)), s')
      | (Inr recs, s') \<Rightarrow> (([], None), s'))"
proof -
  obtain res s0 where g: "GetRecords env p zone s = (res, s0)"
    by (cases "GetRecords env p zone s")
  show ?thesis
  proof (cases res)
    case (Inl err)
    with g show ?thesis by (simp add: DeleteRecords_eq)
  next
    case (Inr recs)
    with g have "\<forall>rec \<in> set recs. \<exists>rr. rec = LibdnsRR rr"
      by (auto dest: GetRecords_LibdnsRR)
    then have "snd (find_record recs rr) = ''''" for rr
      by (rule find_record_LibdnsRR)
    then have "DeleteRecords_body env p zone (libdnsZoneToDnslaDomain zone) recs r acc st
               = (Inr acc, st)" for r acc st
      by (rule DeleteRecords_body_skip)
    then have "for_range (DeleteRecords_body env p zone (libdnsZoneToDnslaDomain zone) recs)
                 records [] s0 = (([], None), s0)"
      by (rule for_range_all_skipped)
    with g Inr show ?thesis
      by (simp add: DeleteRecords_eq)
  qed
qed

text \<open>
  C1. The claim: a record whose name and type match a listed record is edited, by one edit
  call that carries the vendor's ID of the match. The scenario of the spec: the vendor
  lists the record \<^verbatim>\<open>www\<close>, type \<^verbatim>\<open>A\<close>, with ID 1, and \<^verbatim>\<open>SetRecords\<close> is called with a new value
  for it. The code makes the list call and nothing else, and returns an empty list and no
  error. (\<open>SetRecords_body_edit\<close> above is the edit branch on a listing that holds the ID.)
\<close>

theorem SetRecords_listed_record_not_edited:
  "Unmarshal_ResolutionList demo_env body_list
       \<lparr>Code = 0, Msg = '''', List_Data = [], Count = 0, Page = 0, PageSize = 0\<rparr>
     = Inr \<lparr>Code = 1, Msg = ''ok'',
            List_Data = [\<lparr>ID = ''1'', Ym = '''', Zjt = ''www'', Lx = ''A'', Jxz = ''1.1.1.1'',
                          Mx = '''', Xlid = 0, Zt = '''', TTLs = ''600''\<rparr>],
            Count = 0, Page = 0, PageSize = 0\<rparr>
   \<and> SetRecords demo_env demo_provider ''example.com.''
       [LibdnsRR \<lparr>Name = ''www'', TTL = 300 * Second, Type = ''A'', Data = ''2.2.2.2''\<rparr>]
       (start [respond 200 body_list])
     = (([], None),
        \<lparr>world = [],
         invoked = [\<lparr>call_method = ''POST'', call_endpoint = ''/api/resolution/list'',
                     call_params = ''appid=id&ym=example.com''\<rparr>],
         sent = [\<lparr>Method = ''POST'', URL = ''https://api.gname.com/api/resolution/list'',
                  ContentType = ''application/x-www-form-urlencoded'',
                  ReqBody = ''appid=id&gntime=1700000000&ym=example.com&gntoken=5D41402ABC4B2A76B9719D911017C592''\<rparr>]\<rparr>)"
  by (simp add: demo_defs model_defs)

end
